theory Spec2Isabelle
  imports Complex_Main "HOL-Library.Word" "HOL-Library.Sublist"
begin

unbundle bit_operations_syntax

section \<open>The browser as seen by the two scripts\<close>

text \<open>
  Both source files (\<^verbatim>\<open>src/main.ts\<close> and the unnamed clear-only variant,
  \<^verbatim>\<open>part_000\<close>) are straight-line module scripts over the browser's DOM
  and WebGPU objects. The objects the browser hands out are opaque to the scripts, so
  each kind of object is a handle carrying an identity.
\<close>

datatype canvas = HTMLCanvasElement nat
datatype adapter = GPUAdapter nat
datatype device = GPUDevice nat
datatype canvas_context = GPUCanvasContext nat
datatype buffer = GPUBuffer nat
datatype shader_module = GPUShaderModule nat
datatype pipeline = GPURenderPipeline nat
datatype encoder = GPUCommandEncoder nat
datatype texture = GPUTexture nat
datatype texture_view = GPUTextureView nat
datatype pass = GPURenderPassEncoder nat
datatype command_buffer = GPUCommandBuffer nat

text \<open>
  A \<^verbatim>\<open>Float32Array\<close> built from a list of number literals. The elements are kept
  as the literals of the source (their rounding to single precision is not modelled);
  \<^verbatim>\<open>length\<close> counts elements and \<^verbatim>\<open>byteLength\<close> is four bytes per element.
\<close>

datatype float32array = Float32Array "rat list"

fun array_length :: "float32array \<Rightarrow> nat" where
  "array_length (Float32Array xs) = length xs"

definition BYTES_PER_ELEMENT :: nat where
  "BYTES_PER_ELEMENT = 4"

definition byteLength :: "float32array \<Rightarrow> nat" where
  "byteLength a = array_length a * BYTES_PER_ELEMENT"

subsection \<open>Descriptor objects (the object literals of the source)\<close>

record canvas_configuration =
  cfg_device :: device
  cfg_format :: string

record buffer_descriptor =
  buf_label :: string
  buf_size :: nat
  buf_usage :: "32 word"

record vertex_attribute =
  attr_format :: string
  attr_offset :: nat
  attr_shaderLocation :: nat

record vertex_buffer_layout =
  arrayStride :: nat
  attributes :: "vertex_attribute list"

record shader_module_descriptor =
  shader_label :: string
  shader_code :: string

record vertex_state =
  vertex_module :: shader_module
  vertex_entryPoint :: string
  vertex_buffers :: "vertex_buffer_layout list"

record color_target =
  target_format :: string

record fragment_state =
  fragment_module :: shader_module
  fragment_entryPoint :: string
  fragment_targets :: "color_target list"

record render_pipeline_descriptor =
  pipeline_label :: string
  pipeline_layout :: string
  pipeline_vertex :: vertex_state
  pipeline_fragment :: fragment_state

record color_attachment =
  att_view :: texture_view
  att_clearValue :: "rat list"
  att_loadOp :: string
  att_storeOp :: string

record render_pass_descriptor =
  colorAttachments :: "color_attachment list"

subsection \<open>The host\<close>

text \<open>
  \<^verbatim>\<open>navigator.gpu\<close>, when present, answers \<^verbatim>\<open>requestAdapter()\<close> (an adapter or
  null) and \<^verbatim>\<open>getPreferredCanvasFormat()\<close>.
\<close>

record gpu =
  requestAdapter :: "adapter option"
  getPreferredCanvasFormat :: string

text \<open>
  Everything the scripts ask of the browser. A nullable answer is an \<open>option\<close>.
  The two \<^verbatim>\<open>GPUBufferUsage\<close> flags are constants of the WebGPU API, not of this
  repository, and are therefore parameters. Host calls are taken to return; a promise
  that rejects or a host call that raises is outside the model.
\<close>

record host =
  document_querySelector :: "string \<Rightarrow> canvas option"
  navigator_gpu :: "gpu option"
  GPUBufferUsage_VERTEX :: "32 word"
  GPUBufferUsage_COPY_DST :: "32 word"
  requestDevice :: "adapter \<Rightarrow> device"
  getContext :: "canvas \<Rightarrow> string \<Rightarrow> canvas_context option"
  createBuffer :: "device \<Rightarrow> buffer_descriptor \<Rightarrow> buffer"
  createShaderModule :: "device \<Rightarrow> shader_module_descriptor \<Rightarrow> shader_module"
  createRenderPipeline :: "device \<Rightarrow> render_pipeline_descriptor \<Rightarrow> pipeline"
  createCommandEncoder :: "device \<Rightarrow> encoder"
  getCurrentTexture :: "canvas_context \<Rightarrow> texture"
  createView :: "texture \<Rightarrow> texture_view"
  beginRenderPass :: "encoder \<Rightarrow> render_pass_descriptor \<Rightarrow> pass"
  finish :: "encoder \<Rightarrow> command_buffer"

subsection \<open>Observable calls\<close>

text \<open>
  One event per call the scripts make on the host, with receiver and arguments.
  \<open>NavigatorGpu\<close> is the read of \<^verbatim>\<open>navigator.gpu\<close> by the support check.
\<close>

datatype event =
    QuerySelector string
  | NavigatorGpu
  | RequestAdapter
  | RequestDevice adapter
  | GetContext canvas string
  | GetPreferredCanvasFormat
  | Configure canvas_context canvas_configuration
  | CreateBuffer device buffer_descriptor
  | WriteBuffer device buffer nat float32array
  | CreateShaderModule device shader_module_descriptor
  | CreateRenderPipeline device render_pipeline_descriptor
  | CreateCommandEncoder device
  | GetCurrentTexture canvas_context
  | CreateView texture
  | BeginRenderPass encoder render_pass_descriptor
  | SetPipeline pass pipeline
  | SetVertexBuffer pass nat buffer
  | Draw pass rat
  | ConsoleLog nat
  | End pass
  | Finish encoder
  | Submit device "command_buffer list"

subsection \<open>Scripts: a trace of calls, and an uncaught exception or a value\<close>

text \<open>
  \<open>Error msg\<close> is a \<^verbatim>\<open>throw new Error(msg)\<close> statement of the script itself;
  \<open>TypeError\<close> is what the JavaScript engine raises when a member of \<^verbatim>\<open>null\<close>
  is accessed (the TypeScript casts and \<^verbatim>\<open>!\<close> assertions are erased at run time).
\<close>

datatype failure = Error string | TypeError

type_synonym 'a script = "event list \<Rightarrow> event list \<times> (failure + 'a)"

definition call :: "event \<Rightarrow> 'a \<Rightarrow> 'a script" where
  "call e v = (\<lambda>t. (t @ [e], Inr v))"

definition throw :: "string \<Rightarrow> 'a script" where
  "throw msg = (\<lambda>t. (t, Inl (Error msg)))"

definition deref :: "'a option \<Rightarrow> 'a script" where
  "deref x = (\<lambda>t. case x of None \<Rightarrow> (t, Inl TypeError) | Some v \<Rightarrow> (t, Inr v))"

definition ret :: "'a \<Rightarrow> 'a script" where
  "ret v = (\<lambda>t. (t, Inr v))"

definition andThen :: "'a script \<Rightarrow> ('a \<Rightarrow> 'b script) \<Rightarrow> 'b script" where
  "andThen m f = (\<lambda>t. case m t of (t', Inl x) \<Rightarrow> (t', Inl x) | (t', Inr v) \<Rightarrow> f v t')"

definition trace :: "unit script \<Rightarrow> event list" where
  "trace p = fst (p [])"

definition outcome :: "unit script \<Rightarrow> failure + unit" where
  "outcome p = snd (p [])"

subsection \<open>The host calls, as the scripts write them\<close>

definition document_querySelector_call :: "host \<Rightarrow> string \<Rightarrow> canvas option script" where
  "document_querySelector_call h sel = call (QuerySelector sel) (document_querySelector h sel)"

definition navigator_gpu_read :: "host \<Rightarrow> gpu option script" where
  "navigator_gpu_read h = call NavigatorGpu (navigator_gpu h)"

definition gpu_requestAdapter :: "gpu \<Rightarrow> adapter option script" where
  "gpu_requestAdapter g = call RequestAdapter (requestAdapter g)"

definition adapter_requestDevice :: "host \<Rightarrow> adapter \<Rightarrow> device script" where
  "adapter_requestDevice h a = call (RequestDevice a) (requestDevice h a)"

definition canvas_getContext :: "host \<Rightarrow> canvas \<Rightarrow> string \<Rightarrow> canvas_context option script" where
  "canvas_getContext h cv kind = call (GetContext cv kind) (getContext h cv kind)"

definition gpu_getPreferredCanvasFormat :: "gpu \<Rightarrow> string script" where
  "gpu_getPreferredCanvasFormat g = call GetPreferredCanvasFormat (getPreferredCanvasFormat g)"

definition context_configure :: "canvas_context \<Rightarrow> canvas_configuration \<Rightarrow> unit script" where
  "context_configure ctx cfg = call (Configure ctx cfg) ()"

definition device_createBuffer :: "host \<Rightarrow> device \<Rightarrow> buffer_descriptor \<Rightarrow> buffer script" where
  "device_createBuffer h d desc = call (CreateBuffer d desc) (createBuffer h d desc)"

definition queue_writeBuffer :: "device \<Rightarrow> buffer \<Rightarrow> nat \<Rightarrow> float32array \<Rightarrow> unit script" where
  "queue_writeBuffer d b bufferOffset data = call (WriteBuffer d b bufferOffset data) ()"

definition device_createShaderModule ::
  "host \<Rightarrow> device \<Rightarrow> shader_module_descriptor \<Rightarrow> shader_module script" where
  "device_createShaderModule h d desc =
     call (CreateShaderModule d desc) (createShaderModule h d desc)"

definition device_createRenderPipeline ::
  "host \<Rightarrow> device \<Rightarrow> render_pipeline_descriptor \<Rightarrow> pipeline script" where
  "device_createRenderPipeline h d desc =
     call (CreateRenderPipeline d desc) (createRenderPipeline h d desc)"

definition device_createCommandEncoder :: "host \<Rightarrow> device \<Rightarrow> encoder script" where
  "device_createCommandEncoder h d = call (CreateCommandEncoder d) (createCommandEncoder h d)"

definition context_getCurrentTexture :: "host \<Rightarrow> canvas_context \<Rightarrow> texture script" where
  "context_getCurrentTexture h ctx = call (GetCurrentTexture ctx) (getCurrentTexture h ctx)"

definition texture_createView :: "host \<Rightarrow> texture \<Rightarrow> texture_view script" where
  "texture_createView h tex = call (CreateView tex) (createView h tex)"

definition encoder_beginRenderPass ::
  "host \<Rightarrow> encoder \<Rightarrow> render_pass_descriptor \<Rightarrow> pass script" where
  "encoder_beginRenderPass h enc desc =
     call (BeginRenderPass enc desc) (beginRenderPass h enc desc)"

definition pass_setPipeline :: "pass \<Rightarrow> pipeline \<Rightarrow> unit script" where
  "pass_setPipeline p pl = call (SetPipeline p pl) ()"

definition pass_setVertexBuffer :: "pass \<Rightarrow> nat \<Rightarrow> buffer \<Rightarrow> unit script" where
  "pass_setVertexBuffer p slot b = call (SetVertexBuffer p slot b) ()"

definition pass_draw :: "pass \<Rightarrow> rat \<Rightarrow> unit script" where
  "pass_draw p vertexCount = call (Draw p vertexCount) ()"

definition console_log :: "nat \<Rightarrow> unit script" where
  "console_log n = call (ConsoleLog n) ()"

definition pass_end :: "pass \<Rightarrow> unit script" where
  "pass_end p = call (End p) ()"

definition encoder_finish :: "host \<Rightarrow> encoder \<Rightarrow> command_buffer script" where
  "encoder_finish h enc = call (Finish enc) (finish h enc)"

definition queue_submit :: "device \<Rightarrow> command_buffer list \<Rightarrow> unit script" where
  "queue_submit d cbs = call (Submit d cbs) ()"

section \<open>\<^verbatim>\<open>src/main.ts\<close>\<close>

text \<open>Lines 52--60: the two triangles of the square.\<close>

definition verticies :: float32array where
  "verticies = Float32Array
     [-0.8, -0.8,
      0.8, -0.8,
      0.8, 0.8,

      -0.8, -0.8,
      0.8, 0.8,
      -0.8, 0.8]"

text \<open>Lines 75--84.\<close>

definition vertexBufferLayout :: vertex_buffer_layout where
  "vertexBufferLayout =
     \<lparr>arrayStride = 8,
      attributes = [\<lparr>attr_format = ''float32x2'', attr_offset = 0, attr_shaderLocation = 0\<rparr>]\<rparr>"

text \<open>
  Lines 88--102: the template literal holding the shader source. Its line breaks and
  tabs are part of the string; the backslash that ends line 95 continues the line.
\<close>

definition TAB :: char where
  "TAB = CHR 0x09"

definition NL :: char where
  "NL = CHR 0x0A"

definition cellShaderCode :: string where
  "cellShaderCode = concat
     [[NL],
      [TAB], ''@vertex'', [NL],
      [TAB], ''fn vertexMain(@location(0) pos: vec2f) -> @builtin(position) vec4f {'', [NL],
      [TAB, TAB], ''return vec4f(pos, 0 , 1);'', [NL],
      [TAB], ''}'', [NL],
      [NL],
      [TAB], ''@fragment'', [NL],
      [TAB], ''fn fragmentMain() -> @location(0) vec4f{'',
      [TAB, TAB], ''return vec4f(0.1, 0.1, 0.1, 1);'', [NL],
      [NL],
      [NL],
      [TAB], ''}'', [NL],
      [NL],
      [NL],
      [TAB]]"

text \<open>Lines 66--70: the descriptor passed to \<^verbatim>\<open>createBuffer\<close>.\<close>

definition vertexBufferDescriptor :: "host \<Rightarrow> buffer_descriptor" where
  "vertexBufferDescriptor h =
     \<lparr>buf_label = ''Cell Verticies'',
      buf_size = byteLength verticies,
      buf_usage = GPUBufferUsage_VERTEX h OR GPUBufferUsage_COPY_DST h\<rparr>"

text \<open>Lines 86--103: the descriptor passed to \<^verbatim>\<open>createShaderModule\<close>.\<close>

definition cellShaderDescriptor :: shader_module_descriptor where
  "cellShaderDescriptor = \<lparr>shader_label = ''Cell shader'', shader_code = cellShaderCode\<rparr>"

text \<open>Lines 108--123: the descriptor passed to \<^verbatim>\<open>createRenderPipeline\<close>.\<close>

definition cellPipelineDescriptor :: "shader_module \<Rightarrow> string \<Rightarrow> render_pipeline_descriptor" where
  "cellPipelineDescriptor cellShaderModule canvasFormat =
     \<lparr>pipeline_label = ''Cell pipeline'',
      pipeline_layout = ''auto'',
      pipeline_vertex =
        \<lparr>vertex_module = cellShaderModule,
         vertex_entryPoint = ''vertexMain'',
         vertex_buffers = [vertexBufferLayout]\<rparr>,
      pipeline_fragment =
        \<lparr>fragment_module = cellShaderModule,
         fragment_entryPoint = ''fragmentMain'',
         fragment_targets = [\<lparr>target_format = canvasFormat\<rparr>]\<rparr>\<rparr>"

text \<open>Lines 126--134: the descriptor passed to \<^verbatim>\<open>beginRenderPass\<close>, given the view.\<close>

definition pass1Descriptor :: "texture_view \<Rightarrow> render_pass_descriptor" where
  "pass1Descriptor view =
     \<lparr>colorAttachments =
        [\<lparr>att_view = view,
          att_clearValue = [0.8, 0.9, 0.9, 1],
          att_loadOp = ''clear'',
          att_storeOp = ''store''\<rparr>]\<rparr>"

text \<open>
  The script, statement by statement. The two \<^verbatim>\<open>if (!x) throw\<close> statements are the
  \<open>case\<close>s ending in \<open>throw\<close>; the ternary on \<^verbatim>\<open>context\<close> (lines 33--36) is the
  \<open>case\<close> whose null branch does nothing. \<^verbatim>\<open>canvas\<close> (cast at line 3) and
  \<^verbatim>\<open>context!\<close> (line 128) are used unchecked: \<open>deref\<close>. The arguments of a call are
  evaluated before the call, so the view of line 128 is obtained before
  \<^verbatim>\<open>beginRenderPass\<close> is called. \<^verbatim>\<open>verticies.length / 2\<close> is a division of
  numbers, not an integer division.
\<close>

definition main_ts :: "host \<Rightarrow> unit script" where
  "main_ts h =
     andThen (document_querySelector_call h ''canvas'') (\<lambda>canvas.
     andThen (navigator_gpu_read h) (\<lambda>support.
     andThen (case support of
                None \<Rightarrow> throw ''WebGPU is not supported!''
              | Some g \<Rightarrow> ret g) (\<lambda>gpu.
     andThen (gpu_requestAdapter gpu) (\<lambda>adapter.
     andThen (case adapter of
                None \<Rightarrow> throw ''Failed to get adapter!''
              | Some a \<Rightarrow> ret a) (\<lambda>adapter.
     andThen (adapter_requestDevice h adapter) (\<lambda>device.
     andThen (deref canvas) (\<lambda>canvas_el.
     andThen (canvas_getContext h canvas_el ''webgpu'') (\<lambda>context.
     andThen (gpu_getPreferredCanvasFormat gpu) (\<lambda>canvasFormat.
     andThen (case context of
                Some ctx \<Rightarrow> context_configure ctx
                  \<lparr>cfg_device = device, cfg_format = canvasFormat\<rparr>
              | None \<Rightarrow> ret ()) (\<lambda>_.
     andThen (device_createBuffer h device (vertexBufferDescriptor h)) (\<lambda>vertexBuffer.
     andThen (queue_writeBuffer device vertexBuffer 0 verticies) (\<lambda>_.
     andThen (device_createShaderModule h device cellShaderDescriptor) (\<lambda>cellShaderModule.
     andThen (device_createRenderPipeline h device
                (cellPipelineDescriptor cellShaderModule canvasFormat)) (\<lambda>cellPipeline.
     andThen (device_createCommandEncoder h device) (\<lambda>encoder.
     andThen (deref context) (\<lambda>ctx.
     andThen (context_getCurrentTexture h ctx) (\<lambda>tex.
     andThen (texture_createView h tex) (\<lambda>view.
     andThen (encoder_beginRenderPass h encoder (pass1Descriptor view)) (\<lambda>pass1.
     andThen (pass_setPipeline pass1 cellPipeline) (\<lambda>_.
     andThen (pass_setVertexBuffer pass1 0 vertexBuffer) (\<lambda>_.
     andThen (pass_draw pass1 (of_nat (array_length verticies) / 2)) (\<lambda>_.
     andThen (console_log (array_length verticies)) (\<lambda>_.
     andThen (pass_end pass1) (\<lambda>_.
     andThen (encoder_finish h encoder) (\<lambda>commandBuffer.
     queue_submit device [commandBuffer])))))))))))))))))))))))))"

section \<open>The clear-only variant (\<^verbatim>\<open>part_000\<close>)\<close>

text \<open>
  Lines 2--35 read as lines 3--36 of \<^verbatim>\<open>main.ts\<close>; the command encoder is
  created at line 44, and the pass begun at lines 52--60 is ended at once.
\<close>

text \<open>Lines 52--60 of the variant: its own descriptor for \<^verbatim>\<open>beginRenderPass\<close>.\<close>

definition part_000_pass1Descriptor :: "texture_view \<Rightarrow> render_pass_descriptor" where
  "part_000_pass1Descriptor view =
     \<lparr>colorAttachments =
        [\<lparr>att_view = view,
          att_clearValue = [0.8, 0.9, 0.9, 1],
          att_loadOp = ''clear'',
          att_storeOp = ''store''\<rparr>]\<rparr>"

definition part_000 :: "host \<Rightarrow> unit script" where
  "part_000 h =
     andThen (document_querySelector_call h ''canvas'') (\<lambda>canvas.
     andThen (navigator_gpu_read h) (\<lambda>support.
     andThen (case support of
                None \<Rightarrow> throw ''WebGPU is not supported!''
              | Some g \<Rightarrow> ret g) (\<lambda>gpu.
     andThen (gpu_requestAdapter gpu) (\<lambda>adapter.
     andThen (case adapter of
                None \<Rightarrow> throw ''Failed to get adapter!''
              | Some a \<Rightarrow> ret a) (\<lambda>adapter.
     andThen (adapter_requestDevice h adapter) (\<lambda>device.
     andThen (deref canvas) (\<lambda>canvas_el.
     andThen (canvas_getContext h canvas_el ''webgpu'') (\<lambda>context.
     andThen (gpu_getPreferredCanvasFormat gpu) (\<lambda>canvasFormat.
     andThen (case context of
                Some ctx \<Rightarrow> context_configure ctx
                  \<lparr>cfg_device = device, cfg_format = canvasFormat\<rparr>
              | None \<Rightarrow> ret ()) (\<lambda>_.
     andThen (device_createCommandEncoder h device) (\<lambda>encoder.
     andThen (deref context) (\<lambda>ctx.
     andThen (context_getCurrentTexture h ctx) (\<lambda>tex.
     andThen (texture_createView h tex) (\<lambda>view.
     andThen (encoder_beginRenderPass h encoder (part_000_pass1Descriptor view)) (\<lambda>pass1.
     andThen (pass_end pass1) (\<lambda>_.
     andThen (encoder_finish h encoder) (\<lambda>commandBuffer.
     queue_submit device [commandBuffer])))))))))))))))))"

section \<open>Reading a trace\<close>

text \<open>The name of the host member an event is a use of.\<close>

fun call_name :: "event \<Rightarrow> string" where
  "call_name (QuerySelector _) = ''querySelector''"
| "call_name NavigatorGpu = ''navigator.gpu''"
| "call_name RequestAdapter = ''requestAdapter''"
| "call_name (RequestDevice _) = ''requestDevice''"
| "call_name (GetContext _ _) = ''getContext''"
| "call_name GetPreferredCanvasFormat = ''getPreferredCanvasFormat''"
| "call_name (Configure _ _) = ''configure''"
| "call_name (CreateBuffer _ _) = ''createBuffer''"
| "call_name (WriteBuffer _ _ _ _) = ''writeBuffer''"
| "call_name (CreateShaderModule _ _) = ''createShaderModule''"
| "call_name (CreateRenderPipeline _ _) = ''createRenderPipeline''"
| "call_name (CreateCommandEncoder _) = ''createCommandEncoder''"
| "call_name (GetCurrentTexture _) = ''getCurrentTexture''"
| "call_name (CreateView _) = ''createView''"
| "call_name (BeginRenderPass _ _) = ''beginRenderPass''"
| "call_name (SetPipeline _ _) = ''setPipeline''"
| "call_name (SetVertexBuffer _ _ _) = ''setVertexBuffer''"
| "call_name (Draw _ _) = ''draw''"
| "call_name (ConsoleLog _) = ''console.log''"
| "call_name (End _) = ''end''"
| "call_name (Finish _) = ''finish''"
| "call_name (Submit _ _) = ''submit''"

definition calls :: "unit script \<Rightarrow> string list" where
  "calls p = map call_name (trace p)"

definition named :: "string \<Rightarrow> event list \<Rightarrow> event list" where
  "named n tr = filter (\<lambda>e. call_name e = n) tr"

text \<open>
  The nine steps of the specification's overview, as a classification of the events:
  the step an event belongs to, or \<open>None\<close> for a call that is not addressed to the GPU
  API (the DOM lookup of the canvas element, the console). Obtaining the context and the
  preferred format belongs to the configuration step, and everything done with the command
  encoder and the pass up to \<^verbatim>\<open>finish\<close> records the command buffer.
\<close>

fun spec_step :: "event \<Rightarrow> nat option" where
  "spec_step (QuerySelector _) = None"
| "spec_step NavigatorGpu = Some 1"
| "spec_step RequestAdapter = Some 2"
| "spec_step (RequestDevice _) = Some 3"
| "spec_step (GetContext _ _) = Some 4"
| "spec_step GetPreferredCanvasFormat = Some 4"
| "spec_step (Configure _ _) = Some 4"
| "spec_step (CreateBuffer _ _) = Some 5"
| "spec_step (WriteBuffer _ _ _ _) = Some 5"
| "spec_step (CreateShaderModule _ _) = Some 6"
| "spec_step (CreateRenderPipeline _ _) = Some 7"
| "spec_step (CreateCommandEncoder _) = Some 8"
| "spec_step (GetCurrentTexture _) = Some 8"
| "spec_step (CreateView _) = Some 8"
| "spec_step (BeginRenderPass _ _) = Some 8"
| "spec_step (SetPipeline _ _) = Some 8"
| "spec_step (SetVertexBuffer _ _ _) = Some 8"
| "spec_step (Draw _ _) = Some 8"
| "spec_step (ConsoleLog _) = None"
| "spec_step (End _) = Some 8"
| "spec_step (Finish _) = Some 8"
| "spec_step (Submit _ _) = Some 9"

text \<open>The steps a trace goes through, in order, each maximal run of one step counted once.\<close>

definition steps :: "event list \<Rightarrow> nat list" where
  "steps tr = remdups_adj (List.map_filter spec_step tr)"

text \<open>
  \<open>precedes a b ns\<close>: in the list of call names \<open>ns\<close>, \<open>a\<close> occurs and no \<open>b\<close>
  comes before its first occurrence.
\<close>

fun precedes :: "string \<Rightarrow> string \<Rightarrow> string list \<Rightarrow> bool" where
  "precedes a b [] = False"
| "precedes a b (n # ns) = (if n = a then True else if n = b then False else precedes a b ns)"

definition reaches_submission :: "unit script \<Rightarrow> bool" where
  "reaches_submission p = (''submit'' \<in> set (calls p))"

text \<open>The calls that create the command encoder, record into it, finish it and submit.\<close>

definition recording :: "event \<Rightarrow> bool" where
  "recording e = (call_name e \<in> set [''createCommandEncoder'', ''beginRenderPass'',
     ''setPipeline'', ''setVertexBuffer'', ''draw'', ''end'', ''finish'', ''submit''])"

section \<open>Bytes of the vertex buffer\<close>

text \<open>The bytes a buffer created from a descriptor has.\<close>

definition buffer_bytes :: "buffer_descriptor \<Rightarrow> nat set" where
  "buffer_bytes desc = {0 ..< buf_size desc}"

text \<open>
  The bytes of the buffer that a \<^verbatim>\<open>writeBuffer(buffer, bufferOffset, data)\<close> call
  writes: with no data offset and no size given, the whole of \<open>data\<close>, from
  \<open>bufferOffset\<close> on.
\<close>

fun written_bytes :: "event \<Rightarrow> nat set" where
  "written_bytes (WriteBuffer d b bufferOffset data) =
     {bufferOffset ..< bufferOffset + byteLength data}"
| "written_bytes _ = {}"

text \<open>
  The size of a vertex format. The script uses \<^verbatim>\<open>float32x2\<close> only: two floats of
  four bytes.
\<close>

definition vertex_format_bytes :: "string \<Rightarrow> nat option" where
  "vertex_format_bytes fmt = (if fmt = ''float32x2'' then Some 8 else None)"

text \<open>The bytes of the bound buffer read for vertex number \<open>i\<close> under a layout.\<close>

definition attribute_bytes :: "nat \<Rightarrow> nat \<Rightarrow> vertex_attribute \<Rightarrow> nat set" where
  "attribute_bytes stride i attr =
     (case vertex_format_bytes (attr_format attr) of
        None \<Rightarrow> {}
      | Some n \<Rightarrow> {i * stride + attr_offset attr ..< i * stride + attr_offset attr + n})"

definition vertex_bytes :: "vertex_buffer_layout \<Rightarrow> nat \<Rightarrow> nat set" where
  "vertex_bytes layout i =
     \<Union> (set (map (attribute_bytes (arrayStride layout) i) (attributes layout)))"

text \<open>The bytes read by a draw of \<open>n\<close> vertices starting at vertex 0.\<close>

definition drawn_bytes :: "vertex_buffer_layout \<Rightarrow> nat \<Rightarrow> nat set" where
  "drawn_bytes layout n = \<Union> (set (map (vertex_bytes layout) [0 ..< n]))"

section \<open>What a draw reads\<close>

text \<open>
  The vertex count of \<^verbatim>\<open>draw\<close> is an unsigned 32-bit integer of the API; a number
  passed for it is truncated to its integer part.
\<close>

definition GPUSize32 :: "rat \<Rightarrow> nat" where
  "GPUSize32 q = nat \<lfloor>q\<rfloor>"

text \<open>
  What the GPU objects hold while a trace is replayed: the descriptor each buffer and
  each pipeline was created from, the bytes written to each buffer, and for each pass the
  pipeline set on it and the buffer set at each vertex-buffer slot.
\<close>

record gpu_state =
  st_buffers :: "buffer \<Rightarrow> buffer_descriptor option"
  st_written :: "buffer \<Rightarrow> nat set"
  st_pipelines :: "pipeline \<Rightarrow> render_pipeline_descriptor option"
  st_pipeline_of :: "pass \<Rightarrow> pipeline option"
  st_vertex_buffer_of :: "pass \<times> nat \<Rightarrow> buffer option"

definition initial_state :: gpu_state where
  "initial_state =
     \<lparr>st_buffers = (\<lambda>b. None), st_written = (\<lambda>b. {}), st_pipelines = (\<lambda>pl. None),
      st_pipeline_of = (\<lambda>p. None), st_vertex_buffer_of = (\<lambda>ps. None)\<rparr>"

text \<open>The effect of one call on that state; the host decides which handle a creation returns.\<close>

fun track :: "host \<Rightarrow> event \<Rightarrow> gpu_state \<Rightarrow> gpu_state" where
  "track h (CreateBuffer d desc) s =
     s\<lparr>st_buffers := (st_buffers s)(createBuffer h d desc \<mapsto> desc),
       st_written := (st_written s)(createBuffer h d desc := {})\<rparr>"
| "track h (WriteBuffer d b bufferOffset data) s =
     s\<lparr>st_written := (st_written s)
        (b := st_written s b \<union> written_bytes (WriteBuffer d b bufferOffset data))\<rparr>"
| "track h (CreateRenderPipeline d desc) s =
     s\<lparr>st_pipelines := (st_pipelines s)(createRenderPipeline h d desc \<mapsto> desc)\<rparr>"
| "track h (SetPipeline p pl) s = s\<lparr>st_pipeline_of := (st_pipeline_of s)(p \<mapsto> pl)\<rparr>"
| "track h (SetVertexBuffer p slot b) s =
     s\<lparr>st_vertex_buffer_of := (st_vertex_buffer_of s)((p, slot) \<mapsto> b)\<rparr>"
| "track h e s = s"

text \<open>
  What a draw of \<open>n\<close> vertices fetches through one vertex-buffer slot of the pipeline:
  the bytes read under the slot's layout, from the buffer set at that slot, together with
  that buffer's descriptor and the bytes written to it so far; or nothing bound there.
\<close>

datatype fetch =
    Fetch nat "nat set" buffer_descriptor "nat set"
  | Unbound nat

definition slot_fetch :: "gpu_state \<Rightarrow> pass \<Rightarrow> nat \<Rightarrow> nat \<times> vertex_buffer_layout \<Rightarrow> fetch" where
  "slot_fetch s p n sl =
     (case st_vertex_buffer_of s (p, fst sl) of
        None \<Rightarrow> Unbound (fst sl)
      | Some b \<Rightarrow>
          (case st_buffers s b of
             None \<Rightarrow> Unbound (fst sl)
           | Some bdesc \<Rightarrow> Fetch (fst sl) (drawn_bytes (snd sl) n) bdesc (st_written s b)))"

text \<open>
  The fetches of a draw on pass \<open>p\<close>: one for each vertex-buffer layout of the pipeline
  set on \<open>p\<close>; \<open>None\<close> when no pipeline is set on the pass.
\<close>

definition draw_fetches :: "gpu_state \<Rightarrow> pass \<Rightarrow> nat \<Rightarrow> fetch list option" where
  "draw_fetches s p n =
     (case st_pipeline_of s p of
        None \<Rightarrow> None
      | Some pl \<Rightarrow>
          (case st_pipelines s pl of
             None \<Rightarrow> None
           | Some pdesc \<Rightarrow>
               Some (map (slot_fetch s p n) (enumerate 0 (vertex_buffers (pipeline_vertex pdesc))))))"

text \<open>The fetches of every draw of a trace, in order, replaying the trace from a state.\<close>

fun vertex_fetches :: "host \<Rightarrow> gpu_state \<Rightarrow> event list \<Rightarrow> fetch list option list" where
  "vertex_fetches h s [] = []"
| "vertex_fetches h s (e # es) =
     (case e of Draw p n \<Rightarrow> [draw_fetches s p (GPUSize32 n)] | _ \<Rightarrow> [])
       @ vertex_fetches h (track h e s) es"

text \<open>A fetch stays inside its buffer and reads only bytes that were written.\<close>

fun within_buffer :: "fetch \<Rightarrow> bool" where
  "within_buffer (Fetch slot rd bdesc wr) = (rd \<subseteq> buffer_bytes bdesc \<and> rd \<subseteq> wr)"
| "within_buffer (Unbound slot) = False"

section \<open>Which answers of the host a run depends on\<close>

text \<open>The host passes the two aborting checks of lines 6--8 and 21--23.\<close>

definition passes_checks :: "host \<Rightarrow> bool" where
  "passes_checks h =
     (case navigator_gpu h of None \<Rightarrow> False | Some g \<Rightarrow> requestAdapter g \<noteq> None)"

text \<open>The canvas element exists and answers \<^verbatim>\<open>getContext("webgpu")\<close> with null.\<close>

definition context_null :: "host \<Rightarrow> bool" where
  "context_null h =
     (case document_querySelector h ''canvas'' of
        None \<Rightarrow> False
      | Some cv \<Rightarrow> getContext h cv ''webgpu'' = None)"


section \<open>Comparing the two scripts\<close>

text \<open>A trace without the calls of the given names.\<close>

definition without :: "string list \<Rightarrow> event list \<Rightarrow> event list" where
  "without ns tr = filter (\<lambda>e. call_name e \<notin> set ns) tr"

text \<open>The calls of \<^verbatim>\<open>main.ts\<close> that the variant does not make.\<close>

definition main_ts_additions :: "string list" where
  "main_ts_additions =
     [''createBuffer'', ''writeBuffer'', ''createShaderModule'', ''createRenderPipeline'',
      ''setPipeline'', ''setVertexBuffer'', ''draw'', ''console.log'']"

text \<open>
  The additions as the specification lists them: creating the vertex buffer, the shader
  module and the pipeline, and recording \<^verbatim>\<open>setPipeline\<close>, \<^verbatim>\<open>setVertexBuffer\<close> and
  \<^verbatim>\<open>draw\<close>.
\<close>

definition listed_additions :: "string list" where
  "listed_additions =
     [''createBuffer'', ''createShaderModule'', ''createRenderPipeline'',
      ''setPipeline'', ''setVertexBuffer'', ''draw'']"

text \<open>
  The initialization calls: those of steps 1 to 4 of the overview, and the DOM lookup of
  the canvas that precedes them.
\<close>

definition initialization_call :: "event \<Rightarrow> bool" where
  "initialization_call e = (case spec_step e of None \<Rightarrow> True | Some n \<Rightarrow> n \<le> 4)"

definition initialization :: "unit script \<Rightarrow> event list" where
  "initialization p = takeWhile initialization_call (trace p)"

section \<open>Concrete browsers\<close>

definition chrome_gpu :: gpu where
  "chrome_gpu = \<lparr>requestAdapter = Some (GPUAdapter 1), getPreferredCanvasFormat = ''bgra8unorm''\<rparr>"

text \<open>A browser with WebGPU and a page holding a canvas element.\<close>

definition chrome :: host where
  "chrome =
     \<lparr>document_querySelector = (\<lambda>sel. if sel = ''canvas'' then Some (HTMLCanvasElement 0) else None),
      navigator_gpu = Some chrome_gpu,
      GPUBufferUsage_VERTEX = 0x20,
      GPUBufferUsage_COPY_DST = 0x08,
      requestDevice = (\<lambda>a. GPUDevice 2),
      getContext = (\<lambda>cv kind. if kind = ''webgpu'' then Some (GPUCanvasContext 3) else None),
      createBuffer = (\<lambda>d desc. GPUBuffer 4),
      createShaderModule = (\<lambda>d desc. GPUShaderModule 5),
      createRenderPipeline = (\<lambda>d desc. GPURenderPipeline 6),
      createCommandEncoder = (\<lambda>d. GPUCommandEncoder 7),
      getCurrentTexture = (\<lambda>ctx. GPUTexture 8),
      createView = (\<lambda>tex. GPUTextureView 9),
      beginRenderPass = (\<lambda>enc desc. GPURenderPassEncoder 10),
      finish = (\<lambda>enc. GPUCommandBuffer 11)\<rparr>"

text \<open>The same browser without \<^verbatim>\<open>navigator.gpu\<close>.\<close>

definition no_webgpu :: host where
  "no_webgpu = chrome\<lparr>navigator_gpu := None\<rparr>"

text \<open>The same browser when no adapter is available.\<close>

definition no_adapter :: host where
  "no_adapter = chrome\<lparr>navigator_gpu := Some (chrome_gpu\<lparr>requestAdapter := None\<rparr>)\<rparr>"

text \<open>The same browser on a page without a canvas element.\<close>

definition no_canvas :: host where
  "no_canvas = chrome\<lparr>document_querySelector := (\<lambda>sel. None)\<rparr>"

text \<open>The same browser when the canvas already has a context of another kind.\<close>

definition no_context :: host where
  "no_context = chrome\<lparr>getContext := (\<lambda>cv kind. None)\<rparr>"

section \<open>What a run of \<^verbatim>\<open>main.ts\<close> is, host by host\<close>

lemmas host_calls = document_querySelector_call_def navigator_gpu_read_def gpu_requestAdapter_def
  adapter_requestDevice_def canvas_getContext_def gpu_getPreferredCanvasFormat_def context_configure_def
  device_createBuffer_def queue_writeBuffer_def device_createShaderModule_def device_createRenderPipeline_def
  device_createCommandEncoder_def context_getCurrentTexture_def texture_createView_def encoder_beginRenderPass_def
  pass_setPipeline_def pass_setVertexBuffer_def pass_draw_def console_log_def pass_end_def encoder_finish_def queue_submit_def
lemmas script_defs = andThen_def call_def ret_def throw_def deref_def

text \<open>
  A run is decided by four answers of the host: is \<^verbatim>\<open>navigator.gpu\<close> there, is there
  an adapter, is there a canvas element, does the canvas give a WebGPU context.
\<close>

lemma main_ts_no_gpu:
  assumes "navigator_gpu h = None"
  shows "main_ts h [] =
    ([QuerySelector ''canvas'', NavigatorGpu], Inl (Error ''WebGPU is not supported!''))"
  using assms by (simp add: main_ts_def host_calls script_defs)

lemma main_ts_no_adapter:
  assumes "navigator_gpu h = Some g" and "requestAdapter g = None"
  shows "main_ts h [] =
    ([QuerySelector ''canvas'', NavigatorGpu, RequestAdapter], Inl (Error ''Failed to get adapter!''))"
  using assms by (simp add: main_ts_def host_calls script_defs)

lemma main_ts_no_canvas:
  assumes "navigator_gpu h = Some g" and "requestAdapter g = Some a"
    and "document_querySelector h ''canvas'' = None"
  shows "main_ts h [] =
    ([QuerySelector ''canvas'', NavigatorGpu, RequestAdapter, RequestDevice a], Inl TypeError)"
  using assms by (simp add: main_ts_def host_calls script_defs)

lemma main_ts_no_context:
  assumes "navigator_gpu h = Some g" and "requestAdapter g = Some a"
    and "document_querySelector h ''canvas'' = Some cv"
    and "getContext h cv ''webgpu'' = None"
  shows "main_ts h [] =
    (let d = requestDevice h a;
         vb = createBuffer h d (vertexBufferDescriptor h);
         sm = createShaderModule h d cellShaderDescriptor
     in ([QuerySelector ''canvas'', NavigatorGpu, RequestAdapter, RequestDevice a,
       GetContext cv ''webgpu'', GetPreferredCanvasFormat,
       CreateBuffer d (vertexBufferDescriptor h),
       WriteBuffer d vb 0 verticies,
       CreateShaderModule d cellShaderDescriptor,
       CreateRenderPipeline d (cellPipelineDescriptor sm (getPreferredCanvasFormat g)),
       CreateCommandEncoder d], Inl TypeError))"
  using assms by (simp add: main_ts_def host_calls script_defs Let_def)

lemma main_ts_complete:
  assumes "navigator_gpu h = Some g" and "requestAdapter g = Some a"
    and "document_querySelector h ''canvas'' = Some cv"
    and "getContext h cv ''webgpu'' = Some ctx"
  shows "main_ts h [] =
    (let d = requestDevice h a;
         fmt = getPreferredCanvasFormat g;
         vb = createBuffer h d (vertexBufferDescriptor h);
         sm = createShaderModule h d cellShaderDescriptor;
         pl = createRenderPipeline h d (cellPipelineDescriptor sm fmt);
         enc = createCommandEncoder h d;
         tex = getCurrentTexture h ctx;
         view = createView h tex;
         p = beginRenderPass h enc (pass1Descriptor view)
     in ([QuerySelector ''canvas'', NavigatorGpu, RequestAdapter, RequestDevice a,
       GetContext cv ''webgpu'', GetPreferredCanvasFormat,
       Configure ctx \<lparr>cfg_device = d, cfg_format = fmt\<rparr>,
       CreateBuffer d (vertexBufferDescriptor h),
       WriteBuffer d vb 0 verticies,
       CreateShaderModule d cellShaderDescriptor,
       CreateRenderPipeline d (cellPipelineDescriptor sm fmt),
       CreateCommandEncoder d,
       GetCurrentTexture ctx, CreateView tex,
       BeginRenderPass enc (pass1Descriptor view),
       SetPipeline p pl, SetVertexBuffer p 0 vb,
       Draw p (of_nat (array_length verticies) / 2),
       ConsoleLog (array_length verticies),
       End p, Finish enc, Submit d [finish h enc]], Inr ()))"
  using assms by (simp add: main_ts_def host_calls script_defs Let_def)


lemma host_cases [case_names no_gpu no_adapter no_canvas no_context complete]:
  obtains "navigator_gpu h = None"
  | g where "navigator_gpu h = Some g" and "requestAdapter g = None"
  | g a where "navigator_gpu h = Some g" and "requestAdapter g = Some a"
      and "document_querySelector h ''canvas'' = None"
  | g a cv where "navigator_gpu h = Some g" and "requestAdapter g = Some a"
      and "document_querySelector h ''canvas'' = Some cv" and "getContext h cv ''webgpu'' = None"
  | g a cv ctx where "navigator_gpu h = Some g" and "requestAdapter g = Some a"
      and "document_querySelector h ''canvas'' = Some cv" and "getContext h cv ''webgpu'' = Some ctx"
  by (metis option.exhaust)

lemma submission_needs_all:
  assumes "reaches_submission (main_ts h)"
  obtains g a cv ctx where "navigator_gpu h = Some g" and "requestAdapter g = Some a"
      and "document_querySelector h ''canvas'' = Some cv" and "getContext h cv ''webgpu'' = Some ctx"
proof (cases h rule: host_cases)
  case no_gpu
  with assms show ?thesis
    by (simp add: reaches_submission_def calls_def trace_def main_ts_no_gpu)
next
  case (no_adapter g)
  with assms show ?thesis
    by (simp add: reaches_submission_def calls_def trace_def main_ts_no_adapter)
next
  case (no_canvas g a)
  with assms show ?thesis
    by (simp add: reaches_submission_def calls_def trace_def main_ts_no_canvas)
next
  case (no_context g a cv)
  with assms show ?thesis
    by (simp add: reaches_submission_def calls_def trace_def main_ts_no_context Let_def)
next
  case (complete g a cv ctx)
  with that show ?thesis by blast
qed


lemma main_ts_complete_calls:
  assumes "navigator_gpu h = Some g" and "requestAdapter g = Some a"
    and "document_querySelector h ''canvas'' = Some cv"
    and "getContext h cv ''webgpu'' = Some ctx"
  shows "calls (main_ts h) =
      [''querySelector'', ''navigator.gpu'', ''requestAdapter'', ''requestDevice'',
       ''getContext'', ''getPreferredCanvasFormat'', ''configure'',
       ''createBuffer'', ''writeBuffer'', ''createShaderModule'', ''createRenderPipeline'',
       ''createCommandEncoder'', ''getCurrentTexture'', ''createView'', ''beginRenderPass'',
       ''setPipeline'', ''setVertexBuffer'', ''draw'', ''console.log'', ''end'', ''finish'',
       ''submit'']"
  by (simp add: calls_def trace_def main_ts_complete [OF assms] Let_def)

lemma main_ts_complete_steps:
  assumes "navigator_gpu h = Some g" and "requestAdapter g = Some a"
    and "document_querySelector h ''canvas'' = Some cv"
    and "getContext h cv ''webgpu'' = Some ctx"
  shows "steps (trace (main_ts h)) = [1, 2, 3, 4, 5, 6, 7, 8, 9]"
  by (simp add: steps_def trace_def main_ts_complete [OF assms] Let_def)

section \<open>The order of the GPU calls\<close>

text \<open>
  Claim C1. Every run of \<^verbatim>\<open>main.ts\<close> that reaches the queue submission makes its
  calls in one fixed order; the steps of the overview occur as 1, 2, ..., 9, each once and
  in this order; the device is requested before the context is configured, the shader
  module is created before the pipeline, and the pipeline is created before any command
  of the render pass.
\<close>

theorem main_ts_call_order:
  assumes "reaches_submission (main_ts h)"
  shows "calls (main_ts h) =
      [''querySelector'', ''navigator.gpu'', ''requestAdapter'', ''requestDevice'',
       ''getContext'', ''getPreferredCanvasFormat'', ''configure'',
       ''createBuffer'', ''writeBuffer'', ''createShaderModule'', ''createRenderPipeline'',
       ''createCommandEncoder'', ''getCurrentTexture'', ''createView'', ''beginRenderPass'',
       ''setPipeline'', ''setVertexBuffer'', ''draw'', ''console.log'', ''end'', ''finish'',
       ''submit'']
    \<and> steps (trace (main_ts h)) = [1, 2, 3, 4, 5, 6, 7, 8, 9]
    \<and> precedes ''requestDevice'' ''configure'' (calls (main_ts h))
    \<and> precedes ''createShaderModule'' ''createRenderPipeline'' (calls (main_ts h))
    \<and> list_all (\<lambda>c. precedes ''createRenderPipeline'' c (calls (main_ts h)))
         [''beginRenderPass'', ''setPipeline'', ''setVertexBuffer'', ''draw'', ''end'']"
proof -
  from assms obtain g a cv ctx where *: "navigator_gpu h = Some g" "requestAdapter g = Some a"
      "document_querySelector h ''canvas'' = Some cv" "getContext h cv ''webgpu'' = Some ctx"
    by (rule submission_needs_all)
  note c = main_ts_complete_calls [OF *]
  have "precedes ''requestDevice'' ''configure'' (calls (main_ts h))"
    by (simp add: c)
  moreover have "precedes ''createShaderModule'' ''createRenderPipeline'' (calls (main_ts h))"
    by (simp add: c)
  moreover have "list_all (\<lambda>c. precedes ''createRenderPipeline'' c (calls (main_ts h)))
         [''beginRenderPass'', ''setPipeline'', ''setVertexBuffer'', ''draw'', ''end'']"
    by (simp add: c)
  ultimately show ?thesis
    using c main_ts_complete_steps [OF *] by simp
qed

text \<open>The browser \<open>chrome\<close> gives all four answers, so its run reaches the submission.\<close>

lemma chrome_answers:
  "navigator_gpu chrome = Some chrome_gpu"
  "requestAdapter chrome_gpu = Some (GPUAdapter 1)"
  "document_querySelector chrome ''canvas'' = Some (HTMLCanvasElement 0)"
  "getContext chrome (HTMLCanvasElement 0) ''webgpu'' = Some (GPUCanvasContext 3)"
  by (simp_all add: chrome_def chrome_gpu_def)

lemma chrome_submits: "reaches_submission (main_ts chrome)"
  by (simp add: reaches_submission_def main_ts_complete_calls [OF chrome_answers])

theorem main_ts_call_order_witness:
  "reaches_submission (main_ts chrome)
   \<and> steps (trace (main_ts chrome)) = [1, 2, 3, 4, 5, 6, 7, 8, 9]
   \<and> precedes ''requestDevice'' ''configure'' (calls (main_ts chrome))
   \<and> precedes ''createShaderModule'' ''createRenderPipeline'' (calls (main_ts chrome))
   \<and> precedes ''createRenderPipeline'' ''draw'' (calls (main_ts chrome))"
  using main_ts_call_order [OF chrome_submits] chrome_submits by simp

section \<open>One pass, one draw, one submission\<close>

lemma completed_needs_all:
  assumes "outcome (main_ts h) = Inr ()"
  obtains g a cv ctx where "navigator_gpu h = Some g" and "requestAdapter g = Some a"
      and "document_querySelector h ''canvas'' = Some cv" and "getContext h cv ''webgpu'' = Some ctx"
proof (cases h rule: host_cases)
  case no_gpu
  with assms show ?thesis
    by (simp add: outcome_def main_ts_no_gpu)
next
  case (no_adapter g)
  with assms show ?thesis
    by (simp add: outcome_def main_ts_no_adapter)
next
  case (no_canvas g a)
  with assms show ?thesis
    by (simp add: outcome_def main_ts_no_canvas)
next
  case (no_context g a cv)
  with assms show ?thesis
    by (simp add: outcome_def main_ts_no_context Let_def)
next
  case (complete g a cv ctx)
  with that show ?thesis by blast
qed

text \<open>
  Claim C2. In every run of \<^verbatim>\<open>main.ts\<close> that completes, the calls on the command
  encoder, the pass and the queue are: one encoder, one \<^verbatim>\<open>beginRenderPass\<close> on it
  whose descriptor has a single colour attachment with \<^verbatim>\<open>loadOp\<close> "clear" and
  \<^verbatim>\<open>storeOp\<close> "store", one \<^verbatim>\<open>draw\<close> inside that pass, one \<^verbatim>\<open>finish\<close>, and one
  \<^verbatim>\<open>submit\<close> of exactly the command buffer that \<^verbatim>\<open>finish\<close> returned.
\<close>

theorem main_ts_one_pass_one_submission:
  assumes "outcome (main_ts h) = Inr ()"
  shows "\<exists>d enc desc att p pl vb.
      filter recording (trace (main_ts h)) =
        [CreateCommandEncoder d, BeginRenderPass enc desc,
         SetPipeline p pl, SetVertexBuffer p 0 vb, Draw p 6, End p,
         Finish enc, Submit d [finish h enc]]
    \<and> enc = createCommandEncoder h d
    \<and> p = beginRenderPass h enc desc
    \<and> colorAttachments desc = [att] \<and> att_loadOp att = ''clear'' \<and> att_storeOp att = ''store''
    \<and> length (named ''finish'' (trace (main_ts h))) = 1
    \<and> length (named ''beginRenderPass'' (trace (main_ts h))) = 1
    \<and> length (named ''draw'' (trace (main_ts h))) = 1
    \<and> named ''submit'' (trace (main_ts h)) = [Submit d [finish h enc]]"
proof -
  from assms obtain g a cv ctx where *: "navigator_gpu h = Some g" "requestAdapter g = Some a"
      "document_querySelector h ''canvas'' = Some cv" "getContext h cv ''webgpu'' = Some ctx"
    by (rule completed_needs_all)
  define d where "d = requestDevice h a"
  define enc where "enc = createCommandEncoder h d"
  define view where "view = createView h (getCurrentTexture h ctx)"
  define p where "p = beginRenderPass h enc (pass1Descriptor view)"
  define vb where "vb = createBuffer h d (vertexBufferDescriptor h)"
  define pl where "pl = createRenderPipeline h d
    (cellPipelineDescriptor (createShaderModule h d cellShaderDescriptor) (getPreferredCanvasFormat g))"
  have tr: "filter recording (trace (main_ts h)) =
        [CreateCommandEncoder d, BeginRenderPass enc (pass1Descriptor view),
         SetPipeline p pl, SetVertexBuffer p 0 vb, Draw p 6, End p,
         Finish enc, Submit d [finish h enc]]"
    by (simp add: trace_def main_ts_complete [OF *] Let_def recording_def verticies_def
        d_def enc_def view_def p_def vb_def pl_def)
  have n: "length (named ''finish'' (trace (main_ts h))) = 1"
      "length (named ''beginRenderPass'' (trace (main_ts h))) = 1"
      "length (named ''draw'' (trace (main_ts h))) = 1"
      "named ''submit'' (trace (main_ts h)) = [Submit d [finish h enc]]"
    by (simp_all add: trace_def main_ts_complete [OF *] Let_def named_def d_def enc_def)
  have att: "colorAttachments (pass1Descriptor view) =
      [\<lparr>att_view = view, att_clearValue = [0.8, 0.9, 0.9, 1],
        att_loadOp = ''clear'', att_storeOp = ''store''\<rparr>]"
    by (simp add: pass1Descriptor_def)
  show ?thesis
    apply (rule exI [of _ d], rule exI [of _ enc], rule exI [of _ "pass1Descriptor view"])
    apply (rule exI [of _ "\<lparr>att_view = view, att_clearValue = [0.8, 0.9, 0.9, 1],
        att_loadOp = ''clear'', att_storeOp = ''store''\<rparr>"])
    apply (rule exI [of _ p], rule exI [of _ pl], rule exI [of _ vb])
    using tr n att by (simp add: enc_def p_def)
qed

lemma chrome_completes: "outcome (main_ts chrome) = Inr ()"
  by (simp add: outcome_def main_ts_complete [OF chrome_answers] Let_def)

theorem main_ts_one_pass_one_submission_witness:
  "outcome (main_ts chrome) = Inr ()
   \<and> (\<exists>d enc desc p pl vb.
      filter recording (trace (main_ts chrome)) =
        [CreateCommandEncoder d, BeginRenderPass enc desc,
         SetPipeline p pl, SetVertexBuffer p 0 vb, Draw p 6, End p,
         Finish enc, Submit d [GPUCommandBuffer 11]])"
  using main_ts_one_pass_one_submission [OF chrome_completes] chrome_completes
  by (auto simp add: chrome_def)

section \<open>The two aborting checks\<close>

lemma own_error_iff:
  "(\<exists>msg. outcome (main_ts h) = Inl (Error msg)) \<longleftrightarrow> \<not> passes_checks h"
proof (cases h rule: host_cases)
  case no_gpu
  then show ?thesis by (simp add: outcome_def main_ts_no_gpu passes_checks_def)
next
  case (no_adapter g)
  then show ?thesis by (simp add: outcome_def main_ts_no_adapter passes_checks_def)
next
  case (no_canvas g a)
  then show ?thesis by (simp add: outcome_def main_ts_no_canvas passes_checks_def)
next
  case (no_context g a cv)
  then show ?thesis by (simp add: outcome_def main_ts_no_context passes_checks_def Let_def)
next
  case (complete g a cv ctx)
  then show ?thesis by (simp add: outcome_def main_ts_complete passes_checks_def Let_def)
qed

text \<open>
  Claim C3. \<^verbatim>\<open>main.ts\<close> ends in an error thrown by one of its own \<^verbatim>\<open>throw\<close>
  statements exactly when \<^verbatim>\<open>navigator.gpu\<close> is missing or \<^verbatim>\<open>requestAdapter\<close>
  answers null. Without \<^verbatim>\<open>navigator.gpu\<close> the message is "WebGPU is not supported!" and
  nothing is called after the check; without an adapter the message is "Failed to get adapter!"
  and \<^verbatim>\<open>requestAdapter\<close> is the last call, so no device is requested. (The engine's
  \<open>TypeError\<close> on a null canvas or context is not an error of the script's own; it is
  the subject of claim C8.)
\<close>

theorem main_ts_throws_iff:
  "((\<exists>msg. outcome (main_ts h) = Inl (Error msg)) \<longleftrightarrow>
      (navigator_gpu h = None \<or> (\<exists>g. navigator_gpu h = Some g \<and> requestAdapter g = None)))
   \<and> (navigator_gpu h = None \<longrightarrow>
        outcome (main_ts h) = Inl (Error ''WebGPU is not supported!'')
        \<and> trace (main_ts h) = [QuerySelector ''canvas'', NavigatorGpu])
   \<and> (\<forall>g. navigator_gpu h = Some g \<and> requestAdapter g = None \<longrightarrow>
        outcome (main_ts h) = Inl (Error ''Failed to get adapter!'')
        \<and> trace (main_ts h) = [QuerySelector ''canvas'', NavigatorGpu, RequestAdapter])"
proof -
  have "(\<not> passes_checks h) =
      (navigator_gpu h = None \<or> (\<exists>g. navigator_gpu h = Some g \<and> requestAdapter g = None))"
    by (simp add: passes_checks_def split: option.splits)
  then show ?thesis
    using own_error_iff [of h]
    by (simp add: outcome_def trace_def main_ts_no_gpu main_ts_no_adapter)
qed

theorem main_ts_throws_iff_witness:
  "navigator_gpu no_webgpu = None
   \<and> outcome (main_ts no_webgpu) = Inl (Error ''WebGPU is not supported!'')
   \<and> trace (main_ts no_webgpu) = [QuerySelector ''canvas'', NavigatorGpu]
   \<and> (\<exists>g. navigator_gpu no_adapter = Some g \<and> requestAdapter g = None)
   \<and> outcome (main_ts no_adapter) = Inl (Error ''Failed to get adapter!'')
   \<and> trace (main_ts no_adapter) = [QuerySelector ''canvas'', NavigatorGpu, RequestAdapter]
   \<and> \<not> (\<exists>msg. outcome (main_ts chrome) = Inl (Error msg))"
  using main_ts_throws_iff [of no_webgpu] main_ts_throws_iff [of no_adapter]
    main_ts_throws_iff [of chrome]
  by (simp add: no_webgpu_def no_adapter_def chrome_def chrome_gpu_def)

section \<open>The unchecked context\<close>

lemma null_context_calls:
  assumes "passes_checks h" and "context_null h"
  shows "calls (main_ts h) =
      [''querySelector'', ''navigator.gpu'', ''requestAdapter'', ''requestDevice'',
       ''getContext'', ''getPreferredCanvasFormat'',
       ''createBuffer'', ''writeBuffer'', ''createShaderModule'', ''createRenderPipeline'',
       ''createCommandEncoder'']"
    and "outcome (main_ts h) = Inl TypeError"
proof -
  from assms obtain g a cv where *: "navigator_gpu h = Some g" "requestAdapter g = Some a"
      "document_querySelector h ''canvas'' = Some cv" "getContext h cv ''webgpu'' = None"
    by (auto simp add: passes_checks_def context_null_def split: option.splits)
  show "calls (main_ts h) =
      [''querySelector'', ''navigator.gpu'', ''requestAdapter'', ''requestDevice'',
       ''getContext'', ''getPreferredCanvasFormat'',
       ''createBuffer'', ''writeBuffer'', ''createShaderModule'', ''createRenderPipeline'',
       ''createCommandEncoder'']"
    by (simp add: calls_def trace_def main_ts_no_context [OF *] Let_def)
  show "outcome (main_ts h) = Inl TypeError"
    by (simp add: outcome_def main_ts_no_context [OF *] Let_def)
qed

lemma no_context_answers: "passes_checks no_context" "context_null no_context"
  by (simp_all add: passes_checks_def context_null_def no_context_def chrome_def chrome_gpu_def)

text \<open>
  Claim C8. When \<^verbatim>\<open>getContext("webgpu")\<close> answers null, \<^verbatim>\<open>main.ts\<close> makes no
  \<^verbatim>\<open>configure\<close> call, goes on through the creation of the buffer, the shader module, the
  pipeline and the command encoder, and then ends in the engine's \<open>TypeError\<close>: the
  null context is dereferenced for the view of the colour attachment, before
  \<^verbatim>\<open>getCurrentTexture\<close> or \<^verbatim>\<open>beginRenderPass\<close> can be called.
\<close>

theorem main_ts_null_context_dereferenced:
  assumes "passes_checks h" and "context_null h"
  shows "''configure'' \<notin> set (calls (main_ts h))
    \<and> outcome (main_ts h) = Inl TypeError
    \<and> last (calls (main_ts h)) = ''createCommandEncoder''
    \<and> ''getCurrentTexture'' \<notin> set (calls (main_ts h))
    \<and> ''beginRenderPass'' \<notin> set (calls (main_ts h))"
  by (simp add: null_context_calls [OF assms])

theorem main_ts_null_context_dereferenced_witness:
  "passes_checks no_context \<and> context_null no_context
   \<and> ''configure'' \<notin> set (calls (main_ts no_context))
   \<and> outcome (main_ts no_context) = Inl TypeError
   \<and> last (calls (main_ts no_context)) = ''createCommandEncoder''"
  using main_ts_null_context_dereferenced [OF no_context_answers] no_context_answers
  by simp

section \<open>The null tests\<close>










section \<open>The arguments of the calls\<close>

lemma with_canvas_trace:
  assumes "navigator_gpu h = Some g" and "requestAdapter g = Some a"
    and "document_querySelector h ''canvas'' = Some cv"
  shows "named ''createBuffer'' (trace (main_ts h)) =
      [CreateBuffer (requestDevice h a) (vertexBufferDescriptor h)]
    \<and> named ''writeBuffer'' (trace (main_ts h)) =
      [WriteBuffer (requestDevice h a)
         (createBuffer h (requestDevice h a) (vertexBufferDescriptor h)) 0 verticies]
    \<and> named ''createShaderModule'' (trace (main_ts h)) =
      [CreateShaderModule (requestDevice h a) cellShaderDescriptor]
    \<and> named ''createRenderPipeline'' (trace (main_ts h)) =
      [CreateRenderPipeline (requestDevice h a)
         (cellPipelineDescriptor (createShaderModule h (requestDevice h a) cellShaderDescriptor)
            (getPreferredCanvasFormat g))]"
proof (cases "getContext h cv ''webgpu''")
  case None
  show ?thesis
    by (simp add: named_def trace_def main_ts_no_context [OF assms None] Let_def)
next
  case (Some ctx)
  show ?thesis
    by (simp add: named_def trace_def main_ts_complete [OF assms Some] Let_def)
qed


lemma chrome_device: "requestDevice chrome (GPUAdapter 1) = GPUDevice 2"
  by (simp add: chrome_def)

section \<open>Configuration and target format\<close>

text \<open>
  Claim C5. When \<^verbatim>\<open>main.ts\<close> has a context, its one \<^verbatim>\<open>configure\<close> call passes the
  device that \<^verbatim>\<open>requestDevice\<close> of the adapter returned and the format that
  \<^verbatim>\<open>getPreferredCanvasFormat\<close> returned; and the one pipeline it creates has a single
  fragment colour target, whose format is that same format.
\<close>

theorem main_ts_configure_and_target_format:
  assumes "navigator_gpu h = Some g" and "requestAdapter g = Some a"
    and "document_querySelector h ''canvas'' = Some cv"
    and "getContext h cv ''webgpu'' = Some ctx"
  shows "named ''configure'' (trace (main_ts h)) =
      [Configure ctx \<lparr>cfg_device = requestDevice h a, cfg_format = getPreferredCanvasFormat g\<rparr>]
    \<and> (\<exists>d desc. named ''createRenderPipeline'' (trace (main_ts h)) = [CreateRenderPipeline d desc]
          \<and> fragment_targets (pipeline_fragment desc) =
              [\<lparr>target_format = getPreferredCanvasFormat g\<rparr>])"
proof -
  have "named ''configure'' (trace (main_ts h)) =
      [Configure ctx \<lparr>cfg_device = requestDevice h a, cfg_format = getPreferredCanvasFormat g\<rparr>]"
    by (simp add: named_def trace_def main_ts_complete [OF assms] Let_def)
  moreover have "fragment_targets (pipeline_fragment (cellPipelineDescriptor m f)) =
      [\<lparr>target_format = f\<rparr>]" for m f
    by (simp add: cellPipelineDescriptor_def)
  ultimately show ?thesis
    using with_canvas_trace [OF assms(1-3)] by blast
qed

theorem main_ts_configure_and_target_format_witness:
  "navigator_gpu chrome = Some chrome_gpu \<and> requestAdapter chrome_gpu = Some (GPUAdapter 1)
   \<and> document_querySelector chrome ''canvas'' = Some (HTMLCanvasElement 0)
   \<and> getContext chrome (HTMLCanvasElement 0) ''webgpu'' = Some (GPUCanvasContext 3)
   \<and> named ''configure'' (trace (main_ts chrome)) =
      [Configure (GPUCanvasContext 3) \<lparr>cfg_device = GPUDevice 2, cfg_format = ''bgra8unorm''\<rparr>]
   \<and> (\<exists>d desc. named ''createRenderPipeline'' (trace (main_ts chrome)) =
          [CreateRenderPipeline d desc]
        \<and> fragment_targets (pipeline_fragment desc) = [\<lparr>target_format = ''bgra8unorm''\<rparr>])"
proof -
  have f: "getPreferredCanvasFormat chrome_gpu = ''bgra8unorm''"
    by (simp add: chrome_gpu_def)
  show ?thesis
    using main_ts_configure_and_target_format [OF chrome_answers] chrome_answers
    by (simp only: f chrome_device simp_thms)
qed

section \<open>The vertex buffer\<close>

lemma verticies_length: "array_length verticies = 12"
  by (simp add: verticies_def)

lemma verticies_byteLength: "byteLength verticies = 48"
  by (simp add: byteLength_def BYTES_PER_ELEMENT_def verticies_length)

text \<open>
  Claim C6. Whenever \<^verbatim>\<open>main.ts\<close> gets as far as the buffer (the two checks pass and the
  canvas exists), it creates one buffer, whose size is the byte length of the 12-element
  vertex array, 48, and whose usage is \<^verbatim>\<open>VERTEX | COPY_DST\<close> (both flags are set in it);
  and its one \<^verbatim>\<open>writeBuffer\<close> call writes the whole array into that buffer at offset 0,
  which are exactly the bytes of the buffer.
\<close>

theorem main_ts_vertex_buffer_filled:
  assumes "navigator_gpu h = Some g" and "requestAdapter g = Some a"
    and "document_querySelector h ''canvas'' = Some cv"
  shows "\<exists>d desc w.
      named ''createBuffer'' (trace (main_ts h)) = [CreateBuffer d desc]
    \<and> array_length verticies = 12
    \<and> buf_size desc = byteLength verticies
    \<and> buf_size desc = 48
    \<and> buf_usage desc = GPUBufferUsage_VERTEX h OR GPUBufferUsage_COPY_DST h
    \<and> buf_usage desc AND GPUBufferUsage_VERTEX h = GPUBufferUsage_VERTEX h
    \<and> buf_usage desc AND GPUBufferUsage_COPY_DST h = GPUBufferUsage_COPY_DST h
    \<and> named ''writeBuffer'' (trace (main_ts h)) = [w]
    \<and> w = WriteBuffer d (createBuffer h d desc) 0 verticies
    \<and> written_bytes w = buffer_bytes desc"
proof -
  let ?desc = "vertexBufferDescriptor h"
  have "buf_size ?desc = byteLength verticies" "buf_size ?desc = 48"
      "buf_usage ?desc = GPUBufferUsage_VERTEX h OR GPUBufferUsage_COPY_DST h"
    by (simp_all add: vertexBufferDescriptor_def verticies_byteLength)
  moreover have "buf_usage ?desc AND GPUBufferUsage_VERTEX h = GPUBufferUsage_VERTEX h"
      "buf_usage ?desc AND GPUBufferUsage_COPY_DST h = GPUBufferUsage_COPY_DST h"
    by (simp_all add: vertexBufferDescriptor_def bit_eq_iff bit_and_iff bit_or_iff)
  moreover have "written_bytes (WriteBuffer d b 0 verticies) = buffer_bytes ?desc" for d b
    by (simp add: buffer_bytes_def vertexBufferDescriptor_def)
  ultimately show ?thesis
    using with_canvas_trace [OF assms] verticies_length by blast
qed

theorem main_ts_vertex_buffer_filled_witness:
  "navigator_gpu chrome = Some chrome_gpu \<and> requestAdapter chrome_gpu = Some (GPUAdapter 1)
   \<and> document_querySelector chrome ''canvas'' = Some (HTMLCanvasElement 0)
   \<and> (\<exists>d desc w.
      named ''createBuffer'' (trace (main_ts chrome)) = [CreateBuffer d desc]
    \<and> buf_size desc = 48
    \<and> buf_usage desc = 0x28
    \<and> named ''writeBuffer'' (trace (main_ts chrome)) = [w]
    \<and> written_bytes w = {0 ..< 48})"
proof -
  from main_ts_vertex_buffer_filled [OF chrome_answers(1-3)] obtain d desc w where
    *: "named ''createBuffer'' (trace (main_ts chrome)) = [CreateBuffer d desc]"
      "buf_size desc = 48"
      "buf_usage desc = GPUBufferUsage_VERTEX chrome OR GPUBufferUsage_COPY_DST chrome"
      "named ''writeBuffer'' (trace (main_ts chrome)) = [w]"
      "written_bytes w = buffer_bytes desc"
    by blast
  have "GPUBufferUsage_VERTEX chrome OR GPUBufferUsage_COPY_DST chrome = 0x28"
    by (simp add: chrome_def)
  with * have "buf_usage desc = 0x28" "written_bytes w = {0 ..< 48}"
    by (simp_all add: buffer_bytes_def)
  with * chrome_answers show ?thesis
    by blast
qed

section \<open>The pipeline\<close>

text \<open>
  Claim C7. Whenever \<^verbatim>\<open>main.ts\<close> gets as far as the pipeline, it has created one
  shader module, from the inline source text; the one pipeline it creates names that
  module for the vertex stage, with entry point \<^verbatim>\<open>vertexMain\<close>, and for the fragment
  stage, with entry point \<^verbatim>\<open>fragmentMain\<close>; and the buffers of the vertex stage are the
  one declared layout: stride 8 and one \<^verbatim>\<open>float32x2\<close> attribute at offset 0, shader
  location 0.
\<close>

theorem main_ts_pipeline_stages:
  assumes "navigator_gpu h = Some g" and "requestAdapter g = Some a"
    and "document_querySelector h ''canvas'' = Some cv"
  shows "\<exists>d sdesc m pdesc.
      named ''createShaderModule'' (trace (main_ts h)) = [CreateShaderModule d sdesc]
    \<and> shader_code sdesc = cellShaderCode
    \<and> m = createShaderModule h d sdesc
    \<and> named ''createRenderPipeline'' (trace (main_ts h)) = [CreateRenderPipeline d pdesc]
    \<and> vertex_module (pipeline_vertex pdesc) = m
    \<and> vertex_entryPoint (pipeline_vertex pdesc) = ''vertexMain''
    \<and> fragment_module (pipeline_fragment pdesc) = m
    \<and> fragment_entryPoint (pipeline_fragment pdesc) = ''fragmentMain''
    \<and> vertex_buffers (pipeline_vertex pdesc) = [vertexBufferLayout]
    \<and> vertexBufferLayout =
        \<lparr>arrayStride = 8,
         attributes = [\<lparr>attr_format = ''float32x2'', attr_offset = 0, attr_shaderLocation = 0\<rparr>]\<rparr>"
proof -
  let ?d = "requestDevice h a"
  let ?m = "createShaderModule h ?d cellShaderDescriptor"
  let ?pdesc = "cellPipelineDescriptor ?m (getPreferredCanvasFormat g)"
  have sm: "named ''createShaderModule'' (trace (main_ts h)) =
      [CreateShaderModule ?d cellShaderDescriptor]"
    and pl: "named ''createRenderPipeline'' (trace (main_ts h)) = [CreateRenderPipeline ?d ?pdesc]"
    using with_canvas_trace [OF assms] by simp_all
  have code: "shader_code cellShaderDescriptor = cellShaderCode"
    by (simp add: cellShaderDescriptor_def)
  have stages: "vertex_module (pipeline_vertex ?pdesc) = ?m"
      "vertex_entryPoint (pipeline_vertex ?pdesc) = ''vertexMain''"
      "fragment_module (pipeline_fragment ?pdesc) = ?m"
      "fragment_entryPoint (pipeline_fragment ?pdesc) = ''fragmentMain''"
      "vertex_buffers (pipeline_vertex ?pdesc) = [vertexBufferLayout]"
    by (simp_all add: cellPipelineDescriptor_def)
  show ?thesis
    apply (intro exI [of _ ?d] exI [of _ cellShaderDescriptor] exI [of _ ?m] exI [of _ ?pdesc])
    apply (simp only: sm pl code stages simp_thms)
    apply (rule vertexBufferLayout_def)
    done
qed

theorem main_ts_pipeline_stages_witness:
  "navigator_gpu chrome = Some chrome_gpu \<and> requestAdapter chrome_gpu = Some (GPUAdapter 1)
   \<and> document_querySelector chrome ''canvas'' = Some (HTMLCanvasElement 0)
   \<and> (\<exists>d sdesc pdesc.
      named ''createShaderModule'' (trace (main_ts chrome)) = [CreateShaderModule d sdesc]
    \<and> named ''createRenderPipeline'' (trace (main_ts chrome)) = [CreateRenderPipeline d pdesc]
    \<and> vertex_module (pipeline_vertex pdesc) = GPUShaderModule 5
    \<and> fragment_module (pipeline_fragment pdesc) = GPUShaderModule 5
    \<and> vertex_buffers (pipeline_vertex pdesc) = [vertexBufferLayout])"
proof -
  from main_ts_pipeline_stages [OF chrome_answers(1-3)] obtain d sdesc m pdesc where
    *: "named ''createShaderModule'' (trace (main_ts chrome)) = [CreateShaderModule d sdesc]"
      "m = createShaderModule chrome d sdesc"
      "named ''createRenderPipeline'' (trace (main_ts chrome)) = [CreateRenderPipeline d pdesc]"
      "vertex_module (pipeline_vertex pdesc) = m"
      "fragment_module (pipeline_fragment pdesc) = m"
      "vertex_buffers (pipeline_vertex pdesc) = [vertexBufferLayout]"
    by blast
  have "createShaderModule chrome d sdesc = GPUShaderModule 5"
    by (simp add: chrome_def)
  with *(2) have m: "m = GPUShaderModule 5"
    by simp
  show ?thesis
    apply (simp only: chrome_answers simp_thms)
    apply (intro exI [of _ d] exI [of _ sdesc] exI [of _ pdesc])
    apply (simp only: * m [symmetric] simp_thms)
    done
qed

section \<open>The draw and the buffer\<close>

lemma vertex_bytes_layout:
  "vertex_bytes vertexBufferLayout i = {i * 8 ..< i * 8 + 8}"
  by (simp add: vertex_bytes_def vertexBufferLayout_def attribute_bytes_def
      vertex_format_bytes_def)

lemma drawn_bytes_six: "drawn_bytes vertexBufferLayout 6 = {0 ..< 48}"
proof -
  have "[0 ..< 6] = [0, 1, 2, 3, 4, 5::nat]"
    by (simp add: upt_conv_Cons)
  then have "drawn_bytes vertexBufferLayout 6 =
      {0 ..< 8} \<union> {8 ..< 16} \<union> {16 ..< 24} \<union> {24 ..< 32} \<union> {32 ..< 40} \<union> {40 ..< 48::nat}"
    by (simp add: drawn_bytes_def vertex_bytes_layout Un_assoc)
  also have "\<dots> = {0 ..< 48}"
    by (simp add: ivl_disj_un)
  finally show ?thesis .
qed

lemma six_vertices: "GPUSize32 (of_nat (array_length verticies) / 2) = 6"
  by (simp add: GPUSize32_def verticies_length)

lemma main_ts_fetches:
  assumes "navigator_gpu h = Some g" and "requestAdapter g = Some a"
    and "document_querySelector h ''canvas'' = Some cv"
    and "getContext h cv ''webgpu'' = Some ctx"
  shows "vertex_fetches h initial_state (trace (main_ts h)) =
    [Some [Fetch 0 (drawn_bytes vertexBufferLayout 6) (vertexBufferDescriptor h)
       (written_bytes (WriteBuffer (requestDevice h a)
          (createBuffer h (requestDevice h a) (vertexBufferDescriptor h)) 0 verticies))]]"
  by (simp add: trace_def main_ts_complete [OF assms] Let_def initial_state_def
      draw_fetches_def slot_fetch_def six_vertices cellPipelineDescriptor_def enumerate_eq_zip)

text \<open>
  Claim C9. In a completed run of \<^verbatim>\<open>main.ts\<close> the one draw call has vertex count
  \<^verbatim>\<open>verticies.length / 2\<close>, which is 6, and 6 times the stride of the declared layout, 8,
  is the size of the vertex buffer, 48. Replaying the run, that draw is on a pass with the
  created pipeline set on it, whose one vertex-buffer layout is the declared one, and reads
  through slot 0 from the created vertex buffer: the bytes it reads are exactly the bytes
  of that buffer, which are exactly the bytes written to it, so no vertex is read past the
  end.
\<close>

theorem main_ts_draw_covers_buffer:
  assumes "outcome (main_ts h) = Inr ()"
  shows "\<exists>p d w rd bdesc wr.
      named ''draw'' (trace (main_ts h)) = [Draw p (of_nat (array_length verticies) / 2)]
    \<and> of_nat (array_length verticies) / 2 = (6::rat)
    \<and> 6 * arrayStride vertexBufferLayout = buf_size (vertexBufferDescriptor h)
    \<and> buf_size (vertexBufferDescriptor h) = 48
    \<and> named ''createBuffer'' (trace (main_ts h)) = [CreateBuffer d (vertexBufferDescriptor h)]
    \<and> named ''setVertexBuffer'' (trace (main_ts h)) =
        [SetVertexBuffer p 0 (createBuffer h d (vertexBufferDescriptor h))]
    \<and> named ''writeBuffer'' (trace (main_ts h)) = [w]
    \<and> drawn_bytes vertexBufferLayout 6 = buffer_bytes (vertexBufferDescriptor h)
    \<and> drawn_bytes vertexBufferLayout 6 = written_bytes w
    \<and> list_all (\<lambda>i. vertex_bytes vertexBufferLayout i \<subseteq> buffer_bytes (vertexBufferDescriptor h))
         [0 ..< 6]
    \<and> vertex_fetches h initial_state (trace (main_ts h)) = [Some [Fetch 0 rd bdesc wr]]
    \<and> bdesc = vertexBufferDescriptor h
    \<and> rd = {0 ..< 48} \<and> rd = buffer_bytes bdesc \<and> rd = wr
    \<and> within_buffer (Fetch 0 rd bdesc wr)"
proof -
  from assms obtain g a cv ctx where *: "navigator_gpu h = Some g" "requestAdapter g = Some a"
      "document_querySelector h ''canvas'' = Some cv" "getContext h cv ''webgpu'' = Some ctx"
    by (rule completed_needs_all)
  define d where "d = requestDevice h a"
  define vb where "vb = createBuffer h d (vertexBufferDescriptor h)"
  define p where "p = beginRenderPass h (createCommandEncoder h d)
    (pass1Descriptor (createView h (getCurrentTexture h ctx)))"
  have tr: "named ''draw'' (trace (main_ts h)) = [Draw p (of_nat (array_length verticies) / 2)]"
      "named ''setVertexBuffer'' (trace (main_ts h)) = [SetVertexBuffer p 0 vb]"
    by (simp_all add: named_def trace_def main_ts_complete [OF *] Let_def d_def vb_def p_def)
  have six: "of_nat (array_length verticies) / 2 = (6::rat)"
    by (simp add: verticies_length)
  have size: "buf_size (vertexBufferDescriptor h) = 48"
      "6 * arrayStride vertexBufferLayout = buf_size (vertexBufferDescriptor h)"
    by (simp_all add: vertexBufferDescriptor_def verticies_byteLength vertexBufferLayout_def)
  have bytes: "buffer_bytes (vertexBufferDescriptor h) = {0 ..< 48}"
      "written_bytes (WriteBuffer d vb 0 verticies) = {0 ..< 48}"
    by (simp_all add: buffer_bytes_def size verticies_byteLength)
  have each: "list_all (\<lambda>i. vertex_bytes vertexBufferLayout i \<subseteq> {0 ..< 48}) [0 ..< 6]"
    by (simp add: list_all_iff vertex_bytes_layout)
  have cw: "named ''createBuffer'' (trace (main_ts h)) = [CreateBuffer d (vertexBufferDescriptor h)]"
      "named ''writeBuffer'' (trace (main_ts h)) = [WriteBuffer d vb 0 verticies]"
    using with_canvas_trace [OF *(1-3)] by (simp_all add: d_def vb_def)
  have fetches: "vertex_fetches h initial_state (trace (main_ts h)) =
      [Some [Fetch 0 {0 ..< 48} (vertexBufferDescriptor h) {0 ..< 48}]]"
    using main_ts_fetches [OF *] by (simp only: d_def [symmetric] vb_def [symmetric] bytes drawn_bytes_six)
  have inside: "within_buffer (Fetch 0 {0 ..< 48} (vertexBufferDescriptor h) {0 ..< 48})"
    by (simp add: bytes)
  show ?thesis
    apply (intro exI [of _ p] exI [of _ d] exI [of _ "WriteBuffer d vb 0 verticies"]
        exI [of _ "{0 ..< 48}"] exI [of _ "vertexBufferDescriptor h"])
    apply (simp only: tr cw six size bytes each drawn_bytes_six vb_def [symmetric] fetches
        inside simp_thms)
    done
qed

theorem main_ts_draw_covers_buffer_witness:
  "outcome (main_ts chrome) = Inr ()
   \<and> (\<exists>p. named ''draw'' (trace (main_ts chrome)) = [Draw p 6])
   \<and> vertex_fetches chrome initial_state (trace (main_ts chrome)) =
       [Some [Fetch 0 {0 ..< 48} (vertexBufferDescriptor chrome) {0 ..< 48}]]"
proof -
  from main_ts_draw_covers_buffer [OF chrome_completes] obtain p rd bdesc wr where
    "named ''draw'' (trace (main_ts chrome)) = [Draw p (of_nat (array_length verticies) / 2)]"
    "of_nat (array_length verticies) / 2 = (6::rat)"
    "vertex_fetches chrome initial_state (trace (main_ts chrome)) = [Some [Fetch 0 rd bdesc wr]]"
    "bdesc = vertexBufferDescriptor chrome" "rd = {0 ..< 48}" "rd = wr"
    by blast
  with chrome_completes show ?thesis
    by simp
qed

section \<open>The clear-only variant against \<^verbatim>\<open>main.ts\<close>\<close>

lemma part_000_no_gpu:
  assumes "navigator_gpu h = None"
  shows "part_000 h [] =
    ([QuerySelector ''canvas'', NavigatorGpu], Inl (Error ''WebGPU is not supported!''))"
  using assms by (simp add: part_000_def host_calls script_defs)

lemma part_000_no_adapter:
  assumes "navigator_gpu h = Some g" and "requestAdapter g = None"
  shows "part_000 h [] =
    ([QuerySelector ''canvas'', NavigatorGpu, RequestAdapter], Inl (Error ''Failed to get adapter!''))"
  using assms by (simp add: part_000_def host_calls script_defs)

lemma part_000_no_canvas:
  assumes "navigator_gpu h = Some g" and "requestAdapter g = Some a"
    and "document_querySelector h ''canvas'' = None"
  shows "part_000 h [] =
    ([QuerySelector ''canvas'', NavigatorGpu, RequestAdapter, RequestDevice a], Inl TypeError)"
  using assms by (simp add: part_000_def host_calls script_defs)

lemma part_000_no_context:
  assumes "navigator_gpu h = Some g" and "requestAdapter g = Some a"
    and "document_querySelector h ''canvas'' = Some cv"
    and "getContext h cv ''webgpu'' = None"
  shows "part_000 h [] =
    ([QuerySelector ''canvas'', NavigatorGpu, RequestAdapter, RequestDevice a,
      GetContext cv ''webgpu'', GetPreferredCanvasFormat,
      CreateCommandEncoder (requestDevice h a)], Inl TypeError)"
  using assms by (simp add: part_000_def host_calls script_defs)

lemma part_000_complete:
  assumes "navigator_gpu h = Some g" and "requestAdapter g = Some a"
    and "document_querySelector h ''canvas'' = Some cv"
    and "getContext h cv ''webgpu'' = Some ctx"
  shows "part_000 h [] =
    (let d = requestDevice h a;
         fmt = getPreferredCanvasFormat g;
         enc = createCommandEncoder h d;
         tex = getCurrentTexture h ctx;
         view = createView h tex;
         p = beginRenderPass h enc (part_000_pass1Descriptor view)
     in ([QuerySelector ''canvas'', NavigatorGpu, RequestAdapter, RequestDevice a,
       GetContext cv ''webgpu'', GetPreferredCanvasFormat,
       Configure ctx \<lparr>cfg_device = d, cfg_format = fmt\<rparr>,
       CreateCommandEncoder d,
       GetCurrentTexture ctx, CreateView tex,
       BeginRenderPass enc (part_000_pass1Descriptor view),
       End p, Finish enc, Submit d [finish h enc]], Inr ()))"
  using assms by (simp add: part_000_def host_calls script_defs Let_def)

lemma same_pass_descriptor: "pass1Descriptor v = part_000_pass1Descriptor v"
  by (simp add: pass1Descriptor_def part_000_pass1Descriptor_def)

lemmas observe = trace_def outcome_def without_def main_ts_additions_def initialization_def
  initialization_call_def named_def Let_def

lemma variant_no_gpu:
  assumes "navigator_gpu h = None"
  shows "outcome (main_ts h) = outcome (part_000 h)
    \<and> without main_ts_additions (trace (main_ts h)) = trace (part_000 h)
    \<and> initialization (main_ts h) = initialization (part_000 h)
    \<and> named ''beginRenderPass'' (trace (main_ts h)) = named ''beginRenderPass'' (trace (part_000 h))
    \<and> outcome (part_000 h) \<noteq> Inr ()"
  by (simp add: observe main_ts_no_gpu [OF assms] part_000_no_gpu [OF assms])

lemma variant_no_adapter:
  assumes "navigator_gpu h = Some g" and "requestAdapter g = None"
  shows "outcome (main_ts h) = outcome (part_000 h)
    \<and> without main_ts_additions (trace (main_ts h)) = trace (part_000 h)
    \<and> initialization (main_ts h) = initialization (part_000 h)
    \<and> named ''beginRenderPass'' (trace (main_ts h)) = named ''beginRenderPass'' (trace (part_000 h))
    \<and> outcome (part_000 h) \<noteq> Inr ()"
  by (simp add: observe main_ts_no_adapter [OF assms] part_000_no_adapter [OF assms])

lemma variant_no_canvas:
  assumes "navigator_gpu h = Some g" and "requestAdapter g = Some a"
    and "document_querySelector h ''canvas'' = None"
  shows "outcome (main_ts h) = outcome (part_000 h)
    \<and> without main_ts_additions (trace (main_ts h)) = trace (part_000 h)
    \<and> initialization (main_ts h) = initialization (part_000 h)
    \<and> named ''beginRenderPass'' (trace (main_ts h)) = named ''beginRenderPass'' (trace (part_000 h))
    \<and> outcome (part_000 h) \<noteq> Inr ()"
  by (simp add: observe main_ts_no_canvas [OF assms] part_000_no_canvas [OF assms])

lemma variant_no_context:
  assumes "navigator_gpu h = Some g" and "requestAdapter g = Some a"
    and "document_querySelector h ''canvas'' = Some cv"
    and "getContext h cv ''webgpu'' = None"
  shows "outcome (main_ts h) = outcome (part_000 h)
    \<and> without main_ts_additions (trace (main_ts h)) = trace (part_000 h)
    \<and> initialization (main_ts h) = initialization (part_000 h)
    \<and> named ''beginRenderPass'' (trace (main_ts h)) = named ''beginRenderPass'' (trace (part_000 h))
    \<and> outcome (part_000 h) \<noteq> Inr ()"
  by (simp add: observe main_ts_no_context [OF assms] part_000_no_context [OF assms])

lemma variant_complete:
  assumes "navigator_gpu h = Some g" and "requestAdapter g = Some a"
    and "document_querySelector h ''canvas'' = Some cv"
    and "getContext h cv ''webgpu'' = Some ctx"
  shows "outcome (main_ts h) = outcome (part_000 h)
    \<and> without main_ts_additions (trace (main_ts h)) = trace (part_000 h)
    \<and> initialization (main_ts h) = initialization (part_000 h)
    \<and> named ''beginRenderPass'' (trace (main_ts h)) = named ''beginRenderPass'' (trace (part_000 h))
    \<and> map call_name (initialization (part_000 h)) =
        [''querySelector'', ''navigator.gpu'', ''requestAdapter'', ''requestDevice'',
         ''getContext'', ''getPreferredCanvasFormat'', ''configure'']
    \<and> named ''submit'' (trace (part_000 h)) = [last (trace (part_000 h))]
    \<and> named ''submit'' (trace (main_ts h)) = [last (trace (main_ts h))]
    \<and> last (trace (main_ts h)) = last (trace (part_000 h))
    \<and> last (trace (part_000 h)) =
        Submit (requestDevice h a) [finish h (createCommandEncoder h (requestDevice h a))]"
  by (simp add: observe main_ts_complete [OF assms] part_000_complete [OF assms]
      same_pass_descriptor)


lemma traces_side_by_side:
  assumes "navigator_gpu h = Some g" and "requestAdapter g = Some a"
    and "document_querySelector h ''canvas'' = Some cv"
    and "getContext h cv ''webgpu'' = Some ctx"
  shows "\<exists>init d bdesc vb sdesc pdesc pl enc tex view att p cb.
      init = [QuerySelector ''canvas'', NavigatorGpu, RequestAdapter, RequestDevice a,
              GetContext cv ''webgpu'', GetPreferredCanvasFormat,
              Configure ctx \<lparr>cfg_device = d, cfg_format = getPreferredCanvasFormat g\<rparr>]
    \<and> d = requestDevice h a
    \<and> att = \<lparr>att_view = view, att_clearValue = [0.8, 0.9, 0.9, 1],
              att_loadOp = ''clear'', att_storeOp = ''store''\<rparr>
    \<and> trace (part_000 h) =
        init @
        [CreateCommandEncoder d, GetCurrentTexture ctx, CreateView tex,
         BeginRenderPass enc \<lparr>colorAttachments = [att]\<rparr>,
         End p, Finish enc, Submit d [cb]]
    \<and> trace (main_ts h) =
        init @
        [CreateBuffer d bdesc, WriteBuffer d vb 0 verticies,
         CreateShaderModule d sdesc, CreateRenderPipeline d pdesc,
         CreateCommandEncoder d, GetCurrentTexture ctx, CreateView tex,
         BeginRenderPass enc \<lparr>colorAttachments = [att]\<rparr>,
         SetPipeline p pl, SetVertexBuffer p 0 vb, Draw p 6, ConsoleLog 12,
         End p, Finish enc, Submit d [cb]]"
  by (simp add: trace_def main_ts_complete [OF assms] part_000_complete [OF assms] Let_def
      pass1Descriptor_def part_000_pass1Descriptor_def verticies_length)

lemma variant_completed_needs_all:
  assumes "outcome (part_000 h) = Inr ()"
  obtains g a cv ctx where "navigator_gpu h = Some g" and "requestAdapter g = Some a"
      and "document_querySelector h ''canvas'' = Some cv" and "getContext h cv ''webgpu'' = Some ctx"
proof (cases h rule: host_cases)
  case no_gpu
  with assms show ?thesis
    by (simp add: outcome_def part_000_no_gpu)
next
  case (no_adapter g)
  with assms show ?thesis
    by (simp add: outcome_def part_000_no_adapter)
next
  case (no_canvas g a)
  with assms show ?thesis
    by (simp add: outcome_def part_000_no_canvas)
next
  case (no_context g a cv)
  with assms show ?thesis
    by (simp add: outcome_def part_000_no_context)
next
  case (complete g a cv ctx)
  with that show ?thesis by blast
qed

text \<open>
  Claim C10, as stated: \<^verbatim>\<open>main.ts\<close> differs from the variant only by the six listed
  kinds of call. It fails in \<open>chrome\<close>: taking the listed calls out of the trace of
  \<^verbatim>\<open>main.ts\<close> does not give the variant's trace, and still does not when
  \<^verbatim>\<open>writeBuffer\<close> is counted with the creation of the buffer, because \<^verbatim>\<open>main.ts\<close>
  also calls \<^verbatim>\<open>console.log\<close> inside the pass (line 138).
\<close>

theorem listed_additions_counterexample:
  "without listed_additions (trace (main_ts chrome)) \<noteq> trace (part_000 chrome)
   \<and> without (''writeBuffer'' # listed_additions) (trace (main_ts chrome)) \<noteq>
       trace (part_000 chrome)"
  by (simp add: trace_def without_def listed_additions_def
      main_ts_complete [OF chrome_answers] part_000_complete [OF chrome_answers] Let_def)

text \<open>
  Claim C10, amended. On every host the two scripts end in the same way, make the same
  initialization calls, and the trace of the variant is the trace of \<^verbatim>\<open>main.ts\<close> with
  its additional calls left out. When a check aborts or there is no canvas, the two traces
  are the same. With a null context both stop after \<^verbatim>\<open>createCommandEncoder\<close>, before
  which \<^verbatim>\<open>main.ts\<close> alone has made its four creation calls. When the variant completes, so does \<^verbatim>\<open>main.ts\<close>, and
  the two traces are, call for call with the same arguments: the same seven
  initialization calls up to \<^verbatim>\<open>configure\<close> with the device and the preferred format;
  in \<^verbatim>\<open>main.ts\<close> only, \<^verbatim>\<open>createBuffer\<close>, \<^verbatim>\<open>writeBuffer\<close>,
  \<^verbatim>\<open>createShaderModule\<close> and \<^verbatim>\<open>createRenderPipeline\<close>; in both, the command encoder
  and one \<^verbatim>\<open>beginRenderPass\<close> on it with the same single colour attachment (clear value
  [0.8, 0.9, 0.9, 1], \<^verbatim>\<open>loadOp\<close> "clear", \<^verbatim>\<open>storeOp\<close> "store"); in \<^verbatim>\<open>main.ts\<close>
  only, inside the pass, \<^verbatim>\<open>setPipeline\<close>, \<^verbatim>\<open>setVertexBuffer\<close>, \<^verbatim>\<open>draw\<close> and
  \<^verbatim>\<open>console.log\<close>; in both, the end of the pass, \<^verbatim>\<open>finish\<close>, and one submission of
  the command buffer as the last call.
\<close>

theorem part_000_is_main_ts_without_additions:
  "outcome (main_ts h) = outcome (part_000 h)
   \<and> without main_ts_additions (trace (main_ts h)) = trace (part_000 h)
   \<and> initialization (main_ts h) = initialization (part_000 h)
   \<and> (\<not> passes_checks h \<or> document_querySelector h ''canvas'' = None \<longrightarrow>
        trace (main_ts h) = trace (part_000 h))
   \<and> (passes_checks h \<and> context_null h \<longrightarrow>
        (\<exists>init a cv d bdesc vb sdesc pdesc.
            init = [QuerySelector ''canvas'', NavigatorGpu, RequestAdapter, RequestDevice a,
                    GetContext cv ''webgpu'', GetPreferredCanvasFormat]
          \<and> trace (part_000 h) = init @ [CreateCommandEncoder d]
          \<and> trace (main_ts h) =
              init @
              [CreateBuffer d bdesc, WriteBuffer d vb 0 verticies,
               CreateShaderModule d sdesc, CreateRenderPipeline d pdesc,
               CreateCommandEncoder d]))
   \<and> (outcome (part_000 h) = Inr () \<longrightarrow>
        (\<exists>init a cv ctx d fmt bdesc vb sdesc pdesc pl enc tex view att p cb.
            init = [QuerySelector ''canvas'', NavigatorGpu, RequestAdapter, RequestDevice a,
                    GetContext cv ''webgpu'', GetPreferredCanvasFormat,
                    Configure ctx \<lparr>cfg_device = d, cfg_format = fmt\<rparr>]
          \<and> initialization (part_000 h) = init
          \<and> att = \<lparr>att_view = view, att_clearValue = [0.8, 0.9, 0.9, 1],
                    att_loadOp = ''clear'', att_storeOp = ''store''\<rparr>
          \<and> trace (part_000 h) =
              init @
              [CreateCommandEncoder d, GetCurrentTexture ctx, CreateView tex,
               BeginRenderPass enc \<lparr>colorAttachments = [att]\<rparr>,
               End p, Finish enc, Submit d [cb]]
          \<and> trace (main_ts h) =
              init @
              [CreateBuffer d bdesc, WriteBuffer d vb 0 verticies,
               CreateShaderModule d sdesc, CreateRenderPipeline d pdesc,
               CreateCommandEncoder d, GetCurrentTexture ctx, CreateView tex,
               BeginRenderPass enc \<lparr>colorAttachments = [att]\<rparr>,
               SetPipeline p pl, SetVertexBuffer p 0 vb, Draw p 6, ConsoleLog 12,
               End p, Finish enc, Submit d [cb]]))"
proof -
  have general: "outcome (main_ts h) = outcome (part_000 h)
      \<and> without main_ts_additions (trace (main_ts h)) = trace (part_000 h)
      \<and> initialization (main_ts h) = initialization (part_000 h)"
  proof (cases h rule: host_cases)
    case no_gpu
    from variant_no_gpu [OF no_gpu] show ?thesis by simp
  next
    case (no_adapter g)
    from variant_no_adapter [OF no_adapter] show ?thesis by simp
  next
    case (no_canvas g a)
    from variant_no_canvas [OF no_canvas] show ?thesis by simp
  next
    case (no_context g a cv)
    from variant_no_context [OF no_context] show ?thesis by simp
  next
    case (complete g a cv ctx)
    from variant_complete [OF complete] show ?thesis by simp
  qed
  have completed: "\<exists>init a cv ctx d fmt bdesc vb sdesc pdesc pl enc tex view att p cb.
            init = [QuerySelector ''canvas'', NavigatorGpu, RequestAdapter, RequestDevice a,
                    GetContext cv ''webgpu'', GetPreferredCanvasFormat,
                    Configure ctx \<lparr>cfg_device = d, cfg_format = fmt\<rparr>]
          \<and> initialization (part_000 h) = init
          \<and> att = \<lparr>att_view = view, att_clearValue = [0.8, 0.9, 0.9, 1],
                    att_loadOp = ''clear'', att_storeOp = ''store''\<rparr>
          \<and> trace (part_000 h) =
              init @
              [CreateCommandEncoder d, GetCurrentTexture ctx, CreateView tex,
               BeginRenderPass enc \<lparr>colorAttachments = [att]\<rparr>,
               End p, Finish enc, Submit d [cb]]
          \<and> trace (main_ts h) =
              init @
              [CreateBuffer d bdesc, WriteBuffer d vb 0 verticies,
               CreateShaderModule d sdesc, CreateRenderPipeline d pdesc,
               CreateCommandEncoder d, GetCurrentTexture ctx, CreateView tex,
               BeginRenderPass enc \<lparr>colorAttachments = [att]\<rparr>,
               SetPipeline p pl, SetVertexBuffer p 0 vb, Draw p 6, ConsoleLog 12,
               End p, Finish enc, Submit d [cb]]"
    if "outcome (part_000 h) = Inr ()"
  proof -
    from that obtain g a cv ctx where *: "navigator_gpu h = Some g" "requestAdapter g = Some a"
        "document_querySelector h ''canvas'' = Some cv" "getContext h cv ''webgpu'' = Some ctx"
      by (rule variant_completed_needs_all)
    from traces_side_by_side [OF *] obtain init d bdesc vb sdesc pdesc pl enc tex view att p cb
      where t: "init = [QuerySelector ''canvas'', NavigatorGpu, RequestAdapter, RequestDevice a,
              GetContext cv ''webgpu'', GetPreferredCanvasFormat,
              Configure ctx \<lparr>cfg_device = d, cfg_format = getPreferredCanvasFormat g\<rparr>]"
        "att = \<lparr>att_view = view, att_clearValue = [0.8, 0.9, 0.9, 1],
              att_loadOp = ''clear'', att_storeOp = ''store''\<rparr>"
        "trace (part_000 h) =
          init @
          [CreateCommandEncoder d, GetCurrentTexture ctx, CreateView tex,
           BeginRenderPass enc \<lparr>colorAttachments = [att]\<rparr>,
           End p, Finish enc, Submit d [cb]]"
        "trace (main_ts h) =
          init @
          [CreateBuffer d bdesc, WriteBuffer d vb 0 verticies,
           CreateShaderModule d sdesc, CreateRenderPipeline d pdesc,
           CreateCommandEncoder d, GetCurrentTexture ctx, CreateView tex,
           BeginRenderPass enc \<lparr>colorAttachments = [att]\<rparr>,
           SetPipeline p pl, SetVertexBuffer p 0 vb, Draw p 6, ConsoleLog 12,
           End p, Finish enc, Submit d [cb]]"
      by blast
    have "initialization (part_000 h) = init"
      unfolding initialization_def t(3) t(1) by (simp add: initialization_call_def)
    with t show ?thesis
      by blast
  qed
  have early: "trace (main_ts h) = trace (part_000 h)"
    if "\<not> passes_checks h \<or> document_querySelector h ''canvas'' = None"
  proof (cases h rule: host_cases)
    case no_gpu
    then show ?thesis by (simp add: trace_def main_ts_no_gpu part_000_no_gpu)
  next
    case (no_adapter g)
    then show ?thesis by (simp add: trace_def main_ts_no_adapter part_000_no_adapter)
  next
    case (no_canvas g a)
    then show ?thesis by (simp add: trace_def main_ts_no_canvas part_000_no_canvas)
  next
    case (no_context g a cv)
    with that show ?thesis by (simp add: passes_checks_def)
  next
    case (complete g a cv ctx)
    with that show ?thesis by (simp add: passes_checks_def)
  qed
  have skipped: "\<exists>init a cv d bdesc vb sdesc pdesc.
            init = [QuerySelector ''canvas'', NavigatorGpu, RequestAdapter, RequestDevice a,
                    GetContext cv ''webgpu'', GetPreferredCanvasFormat]
          \<and> trace (part_000 h) = init @ [CreateCommandEncoder d]
          \<and> trace (main_ts h) =
              init @
              [CreateBuffer d bdesc, WriteBuffer d vb 0 verticies,
               CreateShaderModule d sdesc, CreateRenderPipeline d pdesc,
               CreateCommandEncoder d]"
    if "passes_checks h \<and> context_null h"
  proof -
    from that obtain g a cv where *: "navigator_gpu h = Some g" "requestAdapter g = Some a"
        "document_querySelector h ''canvas'' = Some cv" "getContext h cv ''webgpu'' = None"
      by (auto simp add: passes_checks_def context_null_def split: option.splits)
    show ?thesis
      by (simp add: trace_def main_ts_no_context [OF *] part_000_no_context [OF *] Let_def)
  qed
  from general early skipped completed show ?thesis
    by blast
qed

lemma chrome_variant_completes: "outcome (part_000 chrome) = Inr ()"
  by (simp add: outcome_def part_000_complete [OF chrome_answers] Let_def)

theorem part_000_is_main_ts_without_additions_witness:
  "document_querySelector no_canvas ''canvas'' = None
   \<and> trace (main_ts no_canvas) = trace (part_000 no_canvas)
   \<and> passes_checks no_context \<and> context_null no_context
   \<and> (\<exists>init d before_encoder.
         trace (part_000 no_context) = init @ [CreateCommandEncoder d]
       \<and> trace (main_ts no_context) = init @ before_encoder @ [CreateCommandEncoder d]
       \<and> map call_name before_encoder =
           [''createBuffer'', ''writeBuffer'', ''createShaderModule'', ''createRenderPipeline''])
   \<and> outcome (part_000 chrome) = Inr ()
   \<and> outcome (main_ts chrome) = Inr ()
   \<and> without main_ts_additions (trace (main_ts chrome)) = trace (part_000 chrome)
   \<and> (\<exists>init before_encoder encoder_and_pass in_pass ending.
         trace (part_000 chrome) = init @ encoder_and_pass @ ending
       \<and> trace (main_ts chrome) = init @ before_encoder @ encoder_and_pass @ in_pass @ ending
       \<and> map call_name before_encoder =
           [''createBuffer'', ''writeBuffer'', ''createShaderModule'', ''createRenderPipeline'']
       \<and> map call_name in_pass = [''setPipeline'', ''setVertexBuffer'', ''draw'', ''console.log''])"
proof -
  note c = part_000_is_main_ts_without_additions [of no_canvas]
  have nc: "document_querySelector no_canvas ''canvas'' = None"
    by (simp add: no_canvas_def)
  with c have e: "trace (main_ts no_canvas) = trace (part_000 no_canvas)"
    by simp
  note n = part_000_is_main_ts_without_additions [of no_context]
  from n no_context_answers obtain init' d' bdesc' vb' sdesc' pdesc' where
    t': "trace (part_000 no_context) = init' @ [CreateCommandEncoder d']"
      "trace (main_ts no_context) =
        init' @ [CreateBuffer d' bdesc', WriteBuffer d' vb' 0 verticies,
           CreateShaderModule d' sdesc', CreateRenderPipeline d' pdesc',
           CreateCommandEncoder d']"
    by blast
  have s: "\<exists>init d before_encoder.
         trace (part_000 no_context) = init @ [CreateCommandEncoder d]
       \<and> trace (main_ts no_context) = init @ before_encoder @ [CreateCommandEncoder d]
       \<and> map call_name before_encoder =
           [''createBuffer'', ''writeBuffer'', ''createShaderModule'', ''createRenderPipeline'']"
    apply (rule exI [of _ init'], rule exI [of _ d'])
    apply (rule exI [of _ "[CreateBuffer d' bdesc', WriteBuffer d' vb' 0 verticies,
           CreateShaderModule d' sdesc', CreateRenderPipeline d' pdesc']"])
    apply (simp add: t')
    done
  note v = part_000_is_main_ts_without_additions [of chrome]
  from v chrome_variant_completes
  have o: "outcome (main_ts chrome) = Inr ()"
      "without main_ts_additions (trace (main_ts chrome)) = trace (part_000 chrome)"
    by simp_all
  from v [THEN conjunct2, THEN conjunct2, THEN conjunct2, THEN conjunct2, THEN conjunct2,
      THEN mp, OF chrome_variant_completes]
  obtain init d bdesc vb sdesc pdesc pl enc ctx tex att p cb where
    t: "trace (part_000 chrome) =
          init @
          [CreateCommandEncoder d, GetCurrentTexture ctx, CreateView tex,
           BeginRenderPass enc \<lparr>colorAttachments = [att]\<rparr>,
           End p, Finish enc, Submit d [cb]]"
        "trace (main_ts chrome) =
          init @
          [CreateBuffer d bdesc, WriteBuffer d vb 0 verticies,
           CreateShaderModule d sdesc, CreateRenderPipeline d pdesc,
           CreateCommandEncoder d, GetCurrentTexture ctx, CreateView tex,
           BeginRenderPass enc \<lparr>colorAttachments = [att]\<rparr>,
           SetPipeline p pl, SetVertexBuffer p 0 vb, Draw p 6, ConsoleLog 12,
           End p, Finish enc, Submit d [cb]]"
    by blast
  have "\<exists>init before_encoder encoder_and_pass in_pass ending.
         trace (part_000 chrome) = init @ encoder_and_pass @ ending
       \<and> trace (main_ts chrome) = init @ before_encoder @ encoder_and_pass @ in_pass @ ending
       \<and> map call_name before_encoder =
           [''createBuffer'', ''writeBuffer'', ''createShaderModule'', ''createRenderPipeline'']
       \<and> map call_name in_pass = [''setPipeline'', ''setVertexBuffer'', ''draw'', ''console.log'']"
    apply (rule exI [of _ init])
    apply (rule exI [of _ "[CreateBuffer d bdesc, WriteBuffer d vb 0 verticies,
           CreateShaderModule d sdesc, CreateRenderPipeline d pdesc]"])
    apply (rule exI [of _ "[CreateCommandEncoder d, GetCurrentTexture ctx, CreateView tex,
           BeginRenderPass enc \<lparr>colorAttachments = [att]\<rparr>]"])
    apply (rule exI [of _ "[SetPipeline p pl, SetVertexBuffer p 0 vb, Draw p 6, ConsoleLog 12]"])
    apply (rule exI [of _ "[End p, Finish enc, Submit d [cb]]"])
    apply (simp add: t)
    done
  with o chrome_variant_completes nc e s no_context_answers show ?thesis
    by blast
qed

end
